theory Spec2Isabelle
  imports Complex_Main
begin

section \<open>Sky Fury: a shallow embedding of the combat simulation\<close>

text \<open>
  The classes of \<^verbatim>\<open>src/classes\<close> are modelled as records, their methods as functions
  that take the object and return the updated object next to the method's return value.
  Python floats and ints that mix with floats are modelled as \<^typ>\<open>real\<close> (exact
  arithmetic, no rounding); counters that stay integers are \<^typ>\<open>int\<close>.
  Sprites, sounds and drawing are left out: no method modelled here reads them.
\<close>

subsection \<open>Vectors and angles (pygame.math.Vector2, math)\<close>

type_synonym Vector2 = "real \<times> real"

definition vadd :: "Vector2 \<Rightarrow> Vector2 \<Rightarrow> Vector2" where
  "vadd u v = (fst u + fst v, snd u + snd v)"

definition vsub :: "Vector2 \<Rightarrow> Vector2 \<Rightarrow> Vector2" where
  "vsub u v = (fst u - fst v, snd u - snd v)"

definition vscale :: "Vector2 \<Rightarrow> real \<Rightarrow> Vector2" where
  "vscale v k = (fst v * k, snd v * k)"

definition vlength :: "Vector2 \<Rightarrow> real" where
  "vlength v = sqrt (fst v * fst v + snd v * snd v)"

datatype error = ValueError | ZeroDivisionError

text \<open>\<^verbatim>\<open>Vector2.normalize()\<close> raises ValueError on a vector of length zero.\<close>

definition normalize :: "Vector2 \<Rightarrow> error + Vector2" where
  "normalize v =
     (if vlength v = 0 then Inl ValueError
      else Inr (fst v / vlength v, snd v / vlength v))"

definition radians :: "real \<Rightarrow> real" where
  "radians d = d * pi / 180"

definition degrees :: "real \<Rightarrow> real" where
  "degrees r = r * 180 / pi"

text \<open>
  \<^verbatim>\<open>math.atan2(y, x)\<close>: the angle of the point \<open>(x, y)\<close>, in \<open>(-pi, pi]\<close>. The reals have
  one zero, so the value \<open>-pi\<close> that the float function gives for \<open>y = -0.0\<close> and
  \<open>x < 0\<close> does not occur.
\<close>

definition atan2 :: "real \<Rightarrow> real \<Rightarrow> real" where
  "atan2 y x =
     (if 0 < x then arctan (y / x)
      else if x < 0 \<and> 0 \<le> y then arctan (y / x) + pi
      else if x < 0 \<and> y < 0 then arctan (y / x) - pi
      else if 0 < y then pi / 2
      else if y < 0 then - (pi / 2)
      else 0)"

text \<open>
  The test every projectile class repeats:
  \<^verbatim>\<open>position.x < -50 or position.x > 850 or position.y < -50 or position.y > 650\<close>.
\<close>

definition off_screen :: "Vector2 \<Rightarrow> bool" where
  "off_screen p \<longleftrightarrow> fst p < - 50 \<or> fst p > 850 \<or> snd p < - 50 \<or> snd p > 650"

subsection \<open>enemies.py: EnemyProjectile\<close>

record EnemyProjectile =
  ep_position :: Vector2
  ep_velocity :: Vector2
  ep_damage :: real
  ep_active :: bool

definition EnemyProjectile_init :: "Vector2 \<Rightarrow> Vector2 \<Rightarrow> EnemyProjectile" where
  "EnemyProjectile_init position velocity =
     \<lparr>ep_position = position, ep_velocity = velocity, ep_damage = 8, ep_active = True\<rparr>"

definition EnemyProjectile_update :: "real \<Rightarrow> EnemyProjectile \<Rightarrow> EnemyProjectile" where
  "EnemyProjectile_update dt p =
     (let p1 = p\<lparr>ep_position := vadd (ep_position p) (vscale (vscale (ep_velocity p) dt) 60)\<rparr>
      in if off_screen (ep_position p1) then p1\<lparr>ep_active := False\<rparr> else p1)"

text \<open>
  The bursts of the attack patterns: one projectile per angle (in degrees), with
  velocity \<^verbatim>\<open>Vector2(cos(rad) * speed, sin(rad) * speed)\<close>.
\<close>

definition burst :: "Vector2 \<Rightarrow> real \<Rightarrow> real list \<Rightarrow> EnemyProjectile list" where
  "burst position speed angles =
     map (\<lambda>a. EnemyProjectile_init position
                 (cos (radians a) * speed, sin (radians a) * speed)) angles"

text \<open>An aimed shot: \<^verbatim>\<open>(player_pos - self.position).normalize() * speed\<close>.\<close>

definition aimed :: "Vector2 \<Rightarrow> Vector2 \<Rightarrow> real \<Rightarrow> error + EnemyProjectile" where
  "aimed position player_pos speed =
     (case normalize (vsub player_pos position) of
        Inl e \<Rightarrow> Inl e
      | Inr direction \<Rightarrow> Inr (EnemyProjectile_init position (vscale direction speed)))"

subsection \<open>enemies.py: Enemy\<close>

record Enemy =
  en_position :: Vector2
  en_type :: string
  en_active :: bool
  en_state :: string
  en_health :: real
  en_max_health :: real
  en_speed :: real
  en_damage :: real
  en_score_value :: int
  en_velocity :: Vector2
  en_move_timer :: real
  en_attack_cooldown :: real
  en_size :: real

definition get_stats :: "string \<Rightarrow> real \<times> real \<times> real \<times> real \<times> int" where
  "get_stats t =
     (if t = ''drone'' then (30, 30, 2.0, 10, 100)
      else if t = ''bomber'' then (60, 60, 1.5, 15, 200)
      else if t = ''gunship'' then (100, 100, 1.8, 20, 300)
      else if t = ''elite'' then (150, 150, 2.2, 25, 400)
      else if t = ''kamikaze'' then (20, 20, 4.0, 40, 150)
      else (30, 30, 2.0, 10, 100))"

definition Enemy_init :: "Vector2 \<Rightarrow> string \<Rightarrow> Enemy" where
  "Enemy_init position enemy_type =
     (case get_stats enemy_type of (h, mh, sp, dmg, sc) \<Rightarrow>
        \<lparr>en_position = position, en_type = enemy_type, en_active = True,
         en_state = ''spawn'', en_health = h, en_max_health = mh, en_speed = sp,
         en_damage = dmg, en_score_value = sc, en_velocity = (- sp, 0),
         en_move_timer = 0, en_attack_cooldown = 0,
         en_size = (if enemy_type \<noteq> ''kamikaze'' then 80 else 70)\<rparr>)"

text \<open>
  The movement rules. \<open>rnd\<close> is the value \<^verbatim>\<open>random.random()\<close> returns when the rule
  draws one (each rule draws at most once per update).
\<close>

definition update_drone :: "real \<Rightarrow> Vector2 \<Rightarrow> real \<Rightarrow> Enemy \<Rightarrow> EnemyProjectile list \<times> Enemy" where
  "update_drone dt player_pos rnd e =
     (let p1 = vadd (en_position e) (vscale (vscale (en_velocity e) dt) 60);
          p2 = (fst p1, snd p1 + sin (en_move_timer e * 2) * 1.5);
          e1 = e\<lparr>en_position := p2\<rparr>
      in if en_attack_cooldown e1 \<le> 0 \<and> 50 < fst p2 \<and> fst p2 < 750 \<and> rnd < 0.02
         then ([EnemyProjectile_init p2 (- 5, 0)], e1\<lparr>en_attack_cooldown := 2.0\<rparr>)
         else ([], e1))"

definition update_bomber :: "real \<Rightarrow> Vector2 \<Rightarrow> Enemy \<Rightarrow> EnemyProjectile list \<times> Enemy" where
  "update_bomber dt player_pos e =
     (let p1 = vadd (en_position e) (vscale (vscale (en_velocity e) dt) 60);
          p2 = (fst p1, snd p1 + sin (en_move_timer e * 1.5) * 0.8);
          e1 = e\<lparr>en_position := p2\<rparr>
      in if en_attack_cooldown e1 \<le> 0 \<and> 50 < fst p2 \<and> fst p2 < 750
            \<and> \<bar>fst p2 - fst player_pos\<bar> < 100
         then ([EnemyProjectile_init p2 (- 2, 3)], e1\<lparr>en_attack_cooldown := 2.5\<rparr>)
         else ([], e1))"

definition update_gunship ::
  "real \<Rightarrow> Vector2 \<Rightarrow> real \<Rightarrow> Enemy \<Rightarrow> error + EnemyProjectile list \<times> Enemy" where
  "update_gunship dt player_pos rnd e =
     (let px = fst (en_position e) + fst (en_velocity e) * dt * 60;
          py = snd (en_position e);
          py1 = (if \<bar>py - snd player_pos\<bar> > 5
                 then py + (if snd player_pos > py then 1 else - 1) * 1.5 else py);
          e1 = e\<lparr>en_position := (px, py1)\<rparr>
      in if en_attack_cooldown e1 \<le> 0 \<and> 100 < px \<and> px < 700 \<and> rnd < 0.03
         then (case aimed (px, py1) player_pos 4 of
                 Inl err \<Rightarrow> Inl err
               | Inr pr \<Rightarrow> Inr ([pr], e1\<lparr>en_attack_cooldown := 1.8\<rparr>))
         else Inr ([], e1))"

definition update_elite :: "real \<Rightarrow> Vector2 \<Rightarrow> real \<Rightarrow> Enemy \<Rightarrow> EnemyProjectile list \<times> Enemy" where
  "update_elite dt player_pos rnd e =
     (let px = fst (en_position e) + fst (en_velocity e) * dt * 60;
          py = snd (en_position e) + (sin (en_move_timer e * 3) * 2 + cos (en_move_timer e * 1.5) * 1);
          e1 = e\<lparr>en_position := (px, py)\<rparr>
      in if en_attack_cooldown e1 \<le> 0 \<and> 100 < px \<and> px < 700 \<and> rnd < 0.04
         then (burst (px, py) 5 (map (\<lambda>a. a + 180) [- 15, 0, 15]),
               e1\<lparr>en_attack_cooldown := 1.2\<rparr>)
         else ([], e1))"

definition update_kamikaze :: "real \<Rightarrow> Vector2 \<Rightarrow> Enemy \<Rightarrow> Enemy" where
  "update_kamikaze dt player_pos e =
     (let direction = vsub player_pos (en_position e)
      in if vlength direction > 0
         then e\<lparr>en_position := vadd (en_position e)
                  (vscale (vscale (vscale (fst direction / vlength direction,
                                           snd direction / vlength direction)
                                          (en_speed e)) dt) 60)\<rparr>
         else e)"

definition Enemy_update ::
  "real \<Rightarrow> Vector2 \<Rightarrow> real \<Rightarrow> Enemy \<Rightarrow> error + EnemyProjectile list \<times> Enemy" where
  "Enemy_update dt player_pos rnd e =
     (if \<not> en_active e then Inr ([], e)
      else
        let e1 = e\<lparr>en_move_timer := en_move_timer e + dt,
                   en_attack_cooldown := max 0 (en_attack_cooldown e - dt)\<rparr>;
            e2 = (if en_state e1 = ''spawn'' then e1\<lparr>en_state := ''move''\<rparr> else e1);
            r = (if en_type e2 = ''drone'' then Inr (update_drone dt player_pos rnd e2)
                 else if en_type e2 = ''bomber'' then Inr (update_bomber dt player_pos e2)
                 else if en_type e2 = ''gunship'' then update_gunship dt player_pos rnd e2
                 else if en_type e2 = ''elite'' then Inr (update_elite dt player_pos rnd e2)
                 else if en_type e2 = ''kamikaze'' then Inr ([], update_kamikaze dt player_pos e2)
                 else Inr ([], e2))
        in case r of
             Inl err \<Rightarrow> Inl err
           | Inr (projectiles, e3) \<Rightarrow>
               Inr (projectiles,
                    if fst (en_position e3) < - 100 then e3\<lparr>en_active := False\<rparr> else e3))"

definition Enemy_take_damage :: "real \<Rightarrow> Enemy \<Rightarrow> bool \<times> Enemy" where
  "Enemy_take_damage amount e =
     (let e1 = e\<lparr>en_health := en_health e - amount\<rparr>
      in if en_health e1 \<le> 0 then (True, e1\<lparr>en_active := False\<rparr>) else (False, e1))"

subsection \<open>enemies.py: Boss\<close>

record Boss =
  bs_position :: Vector2
  bs_type :: string
  bs_active :: bool
  bs_phase :: int
  bs_max_health :: real
  bs_size :: real
  bs_score_value :: int
  bs_health :: real
  bs_velocity :: Vector2
  bs_move_timer :: real
  bs_attack_timer :: real
  bs_phase_transition_timer :: real
  bs_entered :: bool
  bs_entry_target_x :: real

definition Boss_init :: "Vector2 \<Rightarrow> string \<Rightarrow> Boss" where
  "Boss_init position boss_type =
     (let (mh, sz, sc) =
            (if boss_type = ''hive_queen'' then (800, 300, 5000)
             else if boss_type = ''aegis_defender'' then (1200, 360, 8000)
             else (1800, 440, 15000))
      in \<lparr>bs_position = position, bs_type = boss_type, bs_active = True, bs_phase = 1,
          bs_max_health = mh, bs_size = sz, bs_score_value = sc, bs_health = mh,
          bs_velocity = (0, 0), bs_move_timer = 0, bs_attack_timer = 0,
          bs_phase_transition_timer = 0, bs_entered = False, bs_entry_target_x = 650\<rparr>)"

definition update_movement :: "real \<Rightarrow> Vector2 \<Rightarrow> Boss \<Rightarrow> Boss" where
  "update_movement dt player_pos b =
     b\<lparr>bs_position :=
         (fst (bs_position b), max 100 (min 500 (300 + sin (bs_move_timer b * 0.5) * 100)))\<rparr>"

text \<open>Python's float \<^verbatim>\<open>%\<close> with a positive divisor.\<close>

definition fmod :: "real \<Rightarrow> real \<Rightarrow> real" where
  "fmod a m = a - m * of_int \<lfloor>a / m\<rfloor>"

definition hive_queen_attack ::
  "real \<Rightarrow> Vector2 \<Rightarrow> Boss \<Rightarrow> error + EnemyProjectile list \<times> Boss" where
  "hive_queen_attack dt player_pos b =
     (if bs_phase b = 1 then
        (if bs_attack_timer b \<ge> 2.0
         then Inr (burst (bs_position b) 4 (map (\<lambda>i. 180 + (real i - 2) * 20) [0..<5]),
                   b\<lparr>bs_attack_timer := 0\<rparr>)
         else Inr ([], b))
      else if bs_phase b = 2 then
        (if bs_attack_timer b \<ge> 1.5
         then (case aimed (bs_position b) player_pos 6 of
                 Inl err \<Rightarrow> Inl err
               | Inr pr \<Rightarrow>
                   Inr (burst (bs_position b) 5 (map (\<lambda>i. 180 + (real i - 3) * 15) [0..<7]) @ [pr],
                        b\<lparr>bs_attack_timer := 0\<rparr>))
         else Inr ([], b))
      else
        (if bs_attack_timer b \<ge> 0.1
         then Inr (burst (bs_position b) 5 [fmod (bs_move_timer b * 200) 360],
                   b\<lparr>bs_attack_timer := 0\<rparr>)
         else Inr ([], b)))"

definition aegis_defender_attack ::
  "real \<Rightarrow> Vector2 \<Rightarrow> Boss \<Rightarrow> error + EnemyProjectile list \<times> Boss" where
  "aegis_defender_attack dt player_pos b =
     (if bs_phase b = 1 then
        (if bs_attack_timer b \<ge> 0.5
         then (case aimed (bs_position b) player_pos 5 of
                 Inl err \<Rightarrow> Inl err
               | Inr pr \<Rightarrow> Inr ([pr], b\<lparr>bs_attack_timer := 0\<rparr>))
         else Inr ([], b))
      else if bs_phase b = 2 then
        (if bs_attack_timer b \<ge> 0.4
         then (case aimed (bs_position b) player_pos 6 of
                 Inl err \<Rightarrow> Inl err
               | Inr pr \<Rightarrow>
                   Inr (pr # burst (bs_position b) 4 [90, 270], b\<lparr>bs_attack_timer := 0\<rparr>))
         else Inr ([], b))
      else
        (if bs_attack_timer b \<ge> 0.15
         then Inr (burst (bs_position b) 7 (map (\<lambda>i. 180 + (real i - 1) * 10) [0..<3]),
                   b\<lparr>bs_attack_timer := 0\<rparr>)
         else Inr ([], b)))"

definition final_destroyer_attack ::
  "real \<Rightarrow> Vector2 \<Rightarrow> real \<Rightarrow> Boss \<Rightarrow> error + EnemyProjectile list \<times> Boss" where
  "final_destroyer_attack dt player_pos rnd b =
     (if bs_phase b = 1 then
        (if bs_attack_timer b \<ge> 1.5
         then Inr (burst (bs_position b) 4 (map (\<lambda>i. real i * 30) [0..<12]),
                   b\<lparr>bs_attack_timer := 0\<rparr>)
         else Inr ([], b))
      else if bs_phase b = 2 then
        (if bs_attack_timer b \<ge> 1.2
         then Inr (burst (bs_position b) 5 (map (\<lambda>i. real i * 22.5) [0..<16]),
                   b\<lparr>bs_attack_timer := 0\<rparr>)
         else Inr ([], b))
      else
        (if bs_attack_timer b \<ge> 0.08
         then (let spiral = burst (bs_position b) 6 [fmod (bs_move_timer b * 300) 360]
               in if rnd < 0.1
                  then (case aimed (bs_position b) player_pos 8 of
                          Inl err \<Rightarrow> Inl err
                        | Inr pr \<Rightarrow> Inr (spiral @ [pr], b\<lparr>bs_attack_timer := 0\<rparr>))
                  else Inr (spiral, b\<lparr>bs_attack_timer := 0\<rparr>))
         else Inr ([], b)))"

text \<open>
  \<^verbatim>\<open>Boss.update\<close>. The entry glide and the combat behaviour are the two branches of
  \<^verbatim>\<open>if not self.entered\<close>; phase transitions are only looked at in the second.
  \<^verbatim>\<open>self.health / self.max_health\<close> raises ZeroDivisionError when \<open>max_health\<close> is 0.
  \<open>check_phase_transitions\<close> is the block under the comment of that name (for a
  non-zero \<open>max_health\<close>), \<open>attack\<close> the dispatch on the boss type.
\<close>

definition check_phase_transitions :: "Boss \<Rightarrow> Boss" where
  "check_phase_transitions b =
     (let health_percent = bs_health b / bs_max_health b
      in if health_percent \<le> 0.66 \<and> bs_phase b = 1
         then b\<lparr>bs_phase := 2, bs_phase_transition_timer := 2.0\<rparr>
         else if health_percent \<le> 0.33 \<and> bs_phase b = 2
         then b\<lparr>bs_phase := 3, bs_phase_transition_timer := 2.0\<rparr>
         else b)"

definition attack ::
  "real \<Rightarrow> Vector2 \<Rightarrow> real \<Rightarrow> Boss \<Rightarrow> error + EnemyProjectile list \<times> Boss" where
  "attack dt player_pos rnd b =
     (if bs_type b = ''hive_queen'' then hive_queen_attack dt player_pos b
      else if bs_type b = ''aegis_defender'' then aegis_defender_attack dt player_pos b
      else final_destroyer_attack dt player_pos rnd b)"

definition Boss_update ::
  "real \<Rightarrow> Vector2 \<Rightarrow> real \<Rightarrow> Boss \<Rightarrow> error + EnemyProjectile list \<times> Boss" where
  "Boss_update dt player_pos rnd b =
     (if \<not> bs_active b then Inr ([], b)
      else
        let b1 = b\<lparr>bs_move_timer := bs_move_timer b + dt,
                   bs_attack_timer := bs_attack_timer b + dt\<rparr>
        in if \<not> bs_entered b1 then
             (if fst (bs_position b1) > bs_entry_target_x b1
              then Inr ([], b1\<lparr>bs_position := (fst (bs_position b1) - 3, snd (bs_position b1))\<rparr>)
              else Inr ([], b1\<lparr>bs_entered := True\<rparr>))
           else if bs_max_health b1 = 0 then Inl ZeroDivisionError
           else
             let b2 = check_phase_transitions b1
             in if bs_phase_transition_timer b2 > 0
                then Inr ([], b2\<lparr>bs_phase_transition_timer := bs_phase_transition_timer b2 - dt\<rparr>)
                else
                  (case attack dt player_pos rnd b2 of
                     Inl err \<Rightarrow> Inl err
                   | Inr (projectiles, b3) \<Rightarrow> Inr (projectiles, update_movement dt player_pos b3)))"

definition Boss_take_damage :: "real \<Rightarrow> Boss \<Rightarrow> bool \<times> Boss" where
  "Boss_take_damage amount b =
     (if bs_phase_transition_timer b > 0 then (False, b)
      else
        let b1 = b\<lparr>bs_health := bs_health b - amount\<rparr>
        in if bs_health b1 \<le> 0 then (True, b1\<lparr>bs_active := False\<rparr>) else (False, b1))"

subsection \<open>The objects a missile can point at\<close>

text \<open>
  A homing missile keeps a reference to its target (an Enemy or a Boss object) and reads
  the target's \<^verbatim>\<open>active\<close> and \<^verbatim>\<open>position\<close> attributes on every update, also after
  the manager has dropped that object from its collections. The objects therefore live
  in a store, one component per class, from object identities to current values; the
  collections and the missiles hold references.
\<close>

type_synonym oid = nat

datatype ref = EnemyRef oid | BossRef oid

type_synonym store = "(oid \<Rightarrow> Enemy) \<times> (oid \<Rightarrow> Boss)"

fun ref_active :: "store \<Rightarrow> ref \<Rightarrow> bool" where
  "ref_active objs (EnemyRef i) = en_active (fst objs i)"
| "ref_active objs (BossRef i) = bs_active (snd objs i)"

fun ref_position :: "store \<Rightarrow> ref \<Rightarrow> Vector2" where
  "ref_position objs (EnemyRef i) = en_position (fst objs i)"
| "ref_position objs (BossRef i) = bs_position (snd objs i)"

subsection \<open>weapons.py: Bullet\<close>

record Bullet =
  bl_position :: Vector2
  bl_angle :: real
  bl_speed :: real
  bl_damage :: real
  bl_active :: bool
  bl_velocity :: Vector2

definition Bullet_init :: "Vector2 \<Rightarrow> real \<Rightarrow> real \<Rightarrow> Bullet" where
  "Bullet_init position direction_angle speed =
     \<lparr>bl_position = position, bl_angle = direction_angle, bl_speed = speed,
      bl_damage = 15, bl_active = True,
      bl_velocity = (cos (radians direction_angle) * speed,
                     - sin (radians direction_angle) * speed)\<rparr>"

definition Bullet_update :: "real \<Rightarrow> Bullet \<Rightarrow> Bullet" where
  "Bullet_update dt b =
     (let b1 = b\<lparr>bl_position := vadd (bl_position b) (vscale (vscale (bl_velocity b) dt) 60)\<rparr>
      in if off_screen (bl_position b1) then b1\<lparr>bl_active := False\<rparr> else b1)"

subsection \<open>weapons.py: HomingMissile\<close>

record HomingMissile =
  hm_position :: Vector2
  hm_velocity :: Vector2
  hm_angle :: real
  hm_target :: "ref option"
  hm_damage :: real
  hm_active :: bool
  hm_lifetime :: real
  hm_turn_rate :: real

definition HomingMissile_init :: "Vector2 \<Rightarrow> HomingMissile" where
  "HomingMissile_init position =
     \<lparr>hm_position = position, hm_velocity = (10, 0), hm_angle = 0, hm_target = None,
      hm_damage = 40, hm_active = True, hm_lifetime = 6.0, hm_turn_rate = 3.0\<rparr>"

text \<open>
  \<^verbatim>\<open>_find_nearest_enemy\<close>: the loop over \<open>enemies\<close>, carrying \<open>nearest\<close> and
  \<open>min_dist\<close>; \<open>min_dist = None\<close> stands for the initial \<^verbatim>\<open>float('inf')\<close>.
\<close>

fun find_nearest_loop ::
  "store \<Rightarrow> Vector2 \<Rightarrow> ref list \<Rightarrow> ref option \<times> real option \<Rightarrow> ref option \<times> real option" where
  "find_nearest_loop objs pos [] acc = acc"
| "find_nearest_loop objs pos (e # es) (nearest, min_dist) =
     (if ref_active objs e then
        (let dist = vlength (vsub (ref_position objs e) pos)
         in if (case min_dist of None \<Rightarrow> True | Some m \<Rightarrow> dist < m)
            then find_nearest_loop objs pos es (Some e, Some dist)
            else find_nearest_loop objs pos es (nearest, min_dist))
      else find_nearest_loop objs pos es (nearest, min_dist))"

definition find_nearest_enemy :: "store \<Rightarrow> ref list \<Rightarrow> HomingMissile \<Rightarrow> ref option" where
  "find_nearest_enemy objs enemies m =
     fst (find_nearest_loop objs (hm_position m) enemies (None, None))"

text \<open>
  The two normalisation loops
  \<^verbatim>\<open>while angle_diff > 180: angle_diff -= 360\<close> and
  \<^verbatim>\<open>while angle_diff < -180: angle_diff += 360\<close>.
\<close>

function norm_down :: "real \<Rightarrow> real" where
  "norm_down d = (if d > 180 then norm_down (d - 360) else d)"
  by pat_completeness auto
termination
proof (relation "measure (\<lambda>d. nat \<lceil>d\<rceil>)")
  show "wf (measure (\<lambda>d::real. nat \<lceil>d\<rceil>))" by simp
next
  fix d :: real
  assume "180 < d"
  then have "\<lceil>d - 360\<rceil> < \<lceil>d\<rceil>" and "0 < \<lceil>d\<rceil>" by linarith+
  then show "(d - 360, d) \<in> measure (\<lambda>d. nat \<lceil>d\<rceil>)" by simp
qed

function norm_up :: "real \<Rightarrow> real" where
  "norm_up d = (if d < - 180 then norm_up (d + 360) else d)"
  by pat_completeness auto
termination
proof (relation "measure (\<lambda>d. nat \<lceil>- d\<rceil>)")
  show "wf (measure (\<lambda>d::real. nat \<lceil>- d\<rceil>))" by simp
next
  fix d :: real
  assume "d < - 180"
  then have "\<lceil>- (d + 360)\<rceil> < \<lceil>- d\<rceil>" and "0 < \<lceil>- d\<rceil>" by linarith+
  then show "(d + 360, d) \<in> measure (\<lambda>d. nat \<lceil>- d\<rceil>)" by simp
qed

declare norm_down.simps [simp del] norm_up.simps [simp del]

text \<open>
  \<^verbatim>\<open>HomingMissile.update(dt, enemies)\<close>. \<^verbatim>\<open>not self.target\<close> holds exactly when the
  target is None (Enemy and Boss objects are always truthy).
\<close>

definition acquire :: "store \<Rightarrow> ref list \<Rightarrow> HomingMissile \<Rightarrow> HomingMissile" where
  "acquire objs enemies m =
     (case hm_target m of
        None \<Rightarrow> m\<lparr>hm_target := find_nearest_enemy objs enemies m\<rparr>
      | Some t \<Rightarrow>
          if \<not> ref_active objs t then m\<lparr>hm_target := find_nearest_enemy objs enemies m\<rparr>
          else m)"

definition steer :: "store \<Rightarrow> HomingMissile \<Rightarrow> HomingMissile" where
  "steer objs m =
     (case hm_target m of
        None \<Rightarrow> m
      | Some t \<Rightarrow>
          if ref_active objs t then
            (let target_dir = vsub (ref_position objs t) (hm_position m)
             in if vlength target_dir > 0 then
                  (let target_angle = degrees (atan2 (- snd target_dir) (fst target_dir));
                       angle_diff = norm_up (norm_down (target_angle - hm_angle m))
                   in if \<bar>angle_diff\<bar> < hm_turn_rate m then m\<lparr>hm_angle := target_angle\<rparr>
                      else m\<lparr>hm_angle := hm_angle m +
                                (if angle_diff > 0 then hm_turn_rate m else - hm_turn_rate m)\<rparr>)
                else m)
          else m)"

definition HomingMissile_update ::
  "real \<Rightarrow> store \<Rightarrow> ref list \<Rightarrow> HomingMissile \<Rightarrow> HomingMissile" where
  "HomingMissile_update dt objs enemies m =
     (let m1 = m\<lparr>hm_lifetime := hm_lifetime m - dt\<rparr>
      in if hm_lifetime m1 \<le> 0 then m1\<lparr>hm_active := False\<rparr>
         else
           let m2 = acquire objs enemies m1;
               m3 = steer objs m2;
               rad = radians (hm_angle m3);
               speed = 12;
               m4 = m3\<lparr>hm_velocity := (cos rad * speed, - sin rad * speed)\<rparr>;
               m5 = m4\<lparr>hm_position := vadd (hm_position m4) (vscale (vscale (hm_velocity m4) dt) 60)\<rparr>
           in if off_screen (hm_position m5) then m5\<lparr>hm_active := False\<rparr> else m5)"

subsection \<open>weapons.py: PlasmaLaser\<close>

record PlasmaLaser =
  pl_position :: Vector2
  pl_charge :: real
  pl_angle :: real
  pl_damage :: real
  pl_width :: real
  pl_active :: bool
  pl_lifetime :: real
  pl_alpha :: int

definition PlasmaLaser_init :: "Vector2 \<Rightarrow> real \<Rightarrow> PlasmaLaser" where
  "PlasmaLaser_init position charge_level =
     (let charge = min 100 charge_level
      in \<lparr>pl_position = position, pl_charge = charge, pl_angle = 0,
          pl_damage = charge * 0.8, pl_width = 10 + charge * 0.15, pl_active = True,
          pl_lifetime = 0.6, pl_alpha = 255\<rparr>)"

text \<open>Python's \<^verbatim>\<open>int(x)\<close> on a float truncates toward zero.\<close>

definition py_int :: "real \<Rightarrow> int" where
  "py_int r = (if 0 \<le> r then \<lfloor>r\<rfloor> else \<lceil>r\<rceil>)"

definition PlasmaLaser_update :: "real \<Rightarrow> PlasmaLaser \<Rightarrow> PlasmaLaser" where
  "PlasmaLaser_update dt l =
     (let l1 = l\<lparr>pl_lifetime := pl_lifetime l - dt\<rparr>;
          l2 = (if pl_lifetime l1 \<le> 0 then l1\<lparr>pl_active := False\<rparr> else l1)
      in l2\<lparr>pl_alpha := py_int (255 * (pl_lifetime l2 / 0.6))\<rparr>)"

definition get_damage_at_position :: "PlasmaLaser \<Rightarrow> Vector2 \<Rightarrow> real" where
  "get_damage_at_position l pos =
     (if \<bar>snd pos - snd (pl_position l)\<bar> < pl_width l / 2 \<and> fst pos > fst (pl_position l)
      then pl_damage l * 0.02 else 0)"

subsection \<open>aircraft.py: the Aircraft record\<close>

text \<open>
  The attribute \<^verbatim>\<open>weapon_system\<close> is a reference to the WeaponSystem object, which in
  turn refers back to the aircraft. The two objects are passed side by side: a method of
  one that reads or writes the other takes both. \<^verbatim>\<open>Aircraft.update\<close> takes
  \<open>WeaponSystem option\<close>, None for an aircraft whose \<^verbatim>\<open>weapon_system\<close> is still None.
\<close>

record Aircraft =
  ac_position :: Vector2
  ac_velocity :: Vector2
  ac_angle :: real
  ac_on_ground :: bool
  ac_has_taken_off :: bool
  ac_thrust :: real
  ac_flaps :: real
  ac_gear_down :: bool
  ac_brakes_active :: bool
  ac_spoilers_active :: bool
  ac_health :: real
  ac_max_health :: real
  ac_fuel :: real
  ac_max_fuel :: real
  ac_shield_active :: bool
  ac_shield_duration :: real
  ac_score :: int
  ac_lives :: int
  ac_invulnerable :: bool
  ac_invulnerable_timer :: real
  ac_max_speed :: real
  ac_acceleration_rate :: real
  ac_drag :: real
  ac_lift_factor :: real

subsection \<open>weapons.py: WeaponSystem\<close>

text \<open>
  The dictionaries \<^verbatim>\<open>cooldowns\<close> and \<^verbatim>\<open>cooldown_times\<close> are built with the four keys
  \<^verbatim>\<open>'primary', 'missile', 'laser', 'shield'\<close> and no key is ever added or removed, so
  they are total functions on the four keys.
\<close>

datatype channel = primary | missile | laser | shield

record WeaponSystem =
  ws_primary_level :: int
  ws_missile_count :: int
  ws_max_missiles :: int
  ws_laser_charge :: real
  ws_max_laser_charge :: real
  ws_shield_energy :: real
  ws_max_shield_energy :: real
  ws_is_charging_laser :: bool
  ws_cooldowns :: "channel \<Rightarrow> real"
  ws_cooldown_times :: "channel \<Rightarrow> real"
  ws_bullets :: "Bullet list"
  ws_missiles :: "HomingMissile list"
  ws_lasers :: "PlasmaLaser list"

fun cooldown_times_init :: "channel \<Rightarrow> real" where
  "cooldown_times_init primary = 0.15"
| "cooldown_times_init missile = 1.5"
| "cooldown_times_init laser = 3.0"
| "cooldown_times_init shield = 8.0"

definition WeaponSystem_init :: WeaponSystem where
  "WeaponSystem_init =
     \<lparr>ws_primary_level = 1, ws_missile_count = 5, ws_max_missiles = 10,
      ws_laser_charge = 0, ws_max_laser_charge = 100, ws_shield_energy = 50,
      ws_max_shield_energy = 100, ws_is_charging_laser = False,
      ws_cooldowns = (\<lambda>k. 0), ws_cooldown_times = cooldown_times_init,
      ws_bullets = [], ws_missiles = [], ws_lasers = []\<rparr>"

text \<open>
  \<^verbatim>\<open>WeaponSystem.update\<close>, one definition per commented block of the method, in
  the method's order. Each projectile loop runs over a copy of the list, updates
  every element and removes it when it is inactive afterwards: what remains is the
  updated elements that are still active, in order. The missiles are updated against
  the empty enemy list; \<open>objs\<close> is the store their targets live in.
\<close>

definition update_cooldowns :: "real \<Rightarrow> WeaponSystem \<Rightarrow> WeaponSystem" where
  "update_cooldowns dt w =
     w\<lparr>ws_cooldowns :=
         (\<lambda>k. if ws_cooldowns w k > 0 then max 0 (ws_cooldowns w k - dt)
              else ws_cooldowns w k)\<rparr>"

definition update_laser_charge :: "real \<Rightarrow> WeaponSystem \<Rightarrow> WeaponSystem" where
  "update_laser_charge dt w =
     (let w1 = (if ws_is_charging_laser w \<and> ws_laser_charge w < ws_max_laser_charge w
                then w\<lparr>ws_laser_charge := min (ws_max_laser_charge w) (ws_laser_charge w + 40 * dt)\<rparr>
                else w)
      in if \<not> ws_is_charging_laser w1 \<and> ws_laser_charge w1 < ws_max_laser_charge w1
         then w1\<lparr>ws_laser_charge := min (ws_max_laser_charge w1) (ws_laser_charge w1 + 5 * dt)\<rparr>
         else w1)"

definition regenerate_shield :: "real \<Rightarrow> WeaponSystem \<Rightarrow> WeaponSystem" where
  "regenerate_shield dt w =
     (if ws_shield_energy w < ws_max_shield_energy w
      then w\<lparr>ws_shield_energy := min (ws_max_shield_energy w) (ws_shield_energy w + 3 * dt)\<rparr>
      else w)"

definition update_projectiles :: "real \<Rightarrow> store \<Rightarrow> WeaponSystem \<Rightarrow> WeaponSystem" where
  "update_projectiles dt objs w =
     w\<lparr>ws_bullets := filter bl_active (map (Bullet_update dt) (ws_bullets w)),
       ws_missiles := filter hm_active (map (HomingMissile_update dt objs []) (ws_missiles w)),
       ws_lasers := filter pl_active (map (PlasmaLaser_update dt) (ws_lasers w))\<rparr>"

definition WeaponSystem_update :: "real \<Rightarrow> store \<Rightarrow> WeaponSystem \<Rightarrow> WeaponSystem" where
  "WeaponSystem_update dt objs w =
     update_projectiles dt objs
       (regenerate_shield dt (update_laser_charge dt (update_cooldowns dt w)))"

definition fire_primary :: "Aircraft \<Rightarrow> WeaponSystem \<Rightarrow> bool \<times> WeaponSystem" where
  "fire_primary a w =
     (if ws_cooldowns w primary > 0 then (False, w)
      else
        let w1 = w\<lparr>ws_cooldowns := (ws_cooldowns w)(primary := ws_cooldown_times w primary)\<rparr>
        in if ws_primary_level w1 = 1 then
             (True, w1\<lparr>ws_bullets := ws_bullets w1 @ [Bullet_init (ac_position a) 0 15]\<rparr>)
           else if ws_primary_level w1 = 2 then
             (True, w1\<lparr>ws_bullets := ws_bullets w1 @
                        [Bullet_init (vadd (ac_position a) (0, - 10)) 0 15,
                         Bullet_init (vadd (ac_position a) (0, 10)) 0 15]\<rparr>)
           else if ws_primary_level w1 \<ge> 3 then
             (True, w1\<lparr>ws_bullets := ws_bullets w1 @
                        [Bullet_init (ac_position a) 0 15,
                         Bullet_init (ac_position a) 15 15,
                         Bullet_init (ac_position a) (- 15) 15]\<rparr>)
           else (True, w1))"

definition fire_missile :: "Aircraft \<Rightarrow> WeaponSystem \<Rightarrow> bool \<times> WeaponSystem" where
  "fire_missile a w =
     (if ws_cooldowns w missile > 0 \<or> ws_missile_count w \<le> 0 then (False, w)
      else (True, w\<lparr>ws_cooldowns := (ws_cooldowns w)(missile := ws_cooldown_times w missile),
                     ws_missile_count := ws_missile_count w - 1,
                     ws_missiles := ws_missiles w @ [HomingMissile_init (ac_position a)]\<rparr>))"

definition fire_laser :: "Aircraft \<Rightarrow> WeaponSystem \<Rightarrow> bool \<times> WeaponSystem" where
  "fire_laser a w =
     (if ws_cooldowns w laser > 0 \<or> ws_laser_charge w < 30 then (False, w)
      else (True, w\<lparr>ws_cooldowns := (ws_cooldowns w)(laser := ws_cooldown_times w laser),
                     ws_lasers := ws_lasers w @ [PlasmaLaser_init (ac_position a) (ws_laser_charge w)],
                     ws_laser_charge := 0,
                     ws_is_charging_laser := False\<rparr>))"

definition upgrade_primary :: "WeaponSystem \<Rightarrow> bool \<times> WeaponSystem" where
  "upgrade_primary w =
     (if ws_primary_level w < 3 then (True, w\<lparr>ws_primary_level := ws_primary_level w + 1\<rparr>)
      else (False, w))"

definition add_missiles :: "int \<Rightarrow> WeaponSystem \<Rightarrow> WeaponSystem" where
  "add_missiles count w =
     w\<lparr>ws_missile_count := min (ws_max_missiles w) (ws_missile_count w + count)\<rparr>"

definition WeaponSystem_activate_shield ::
  "Aircraft \<Rightarrow> WeaponSystem \<Rightarrow> bool \<times> WeaponSystem \<times> Aircraft" where
  "WeaponSystem_activate_shield a w =
     (if ws_cooldowns w shield > 0 \<or> ws_shield_energy w < 40 then (False, w, a)
      else (True,
            w\<lparr>ws_cooldowns := (ws_cooldowns w)(shield := ws_cooldown_times w shield),
              ws_shield_energy := ws_shield_energy w - 40\<rparr>,
            a\<lparr>ac_shield_active := True, ac_shield_duration := 5.0\<rparr>))"

subsection \<open>aircraft.py: Aircraft\<close>

definition GRAVITY :: real where "GRAVITY = 0.3"
definition GROUND_LEVEL :: real where "GROUND_LEVEL = 500"
definition RUNWAY_X_START :: real where "RUNWAY_X_START = 50"
definition RUNWAY_X_END :: real where "RUNWAY_X_END = 300"
definition MIN_TAKEOFF_SPEED :: real where "MIN_TAKEOFF_SPEED = 3.5"
definition MAX_LANDING_SPEED :: real where "MAX_LANDING_SPEED = 3.0"
definition MAX_LANDING_ANGLE :: real where "MAX_LANDING_ANGLE = 15.0"

definition Aircraft_init :: Aircraft where
  "Aircraft_init =
     \<lparr>ac_position = (100, GROUND_LEVEL), ac_velocity = (0, 0), ac_angle = 0,
      ac_on_ground = True, ac_has_taken_off = False, ac_thrust = 0, ac_flaps = 0,
      ac_gear_down = True, ac_brakes_active = False, ac_spoilers_active = False,
      ac_health = 100, ac_max_health = 100, ac_fuel = 100, ac_max_fuel = 100,
      ac_shield_active = False, ac_shield_duration = 0, ac_score = 0, ac_lives = 3,
      ac_invulnerable = False, ac_invulnerable_timer = 0, ac_max_speed = 10.0,
      ac_acceleration_rate = 0.25, ac_drag = 0.97, ac_lift_factor = 0.08\<rparr>"

definition land :: "Aircraft \<Rightarrow> Aircraft" where
  "land a = a\<lparr>ac_on_ground := True, ac_velocity := (fst (ac_velocity a), 0),
               ac_position := (fst (ac_position a), GROUND_LEVEL), ac_gear_down := True\<rparr>"

definition crash :: "Aircraft \<Rightarrow> Aircraft" where
  "crash a = a\<lparr>ac_health := 0\<rparr>"

definition check_landing :: "Aircraft \<Rightarrow> Aircraft" where
  "check_landing a =
     (if RUNWAY_X_START \<le> fst (ac_position a) \<and> fst (ac_position a) \<le> RUNWAY_X_END then
        (if \<bar>snd (ac_velocity a)\<bar> \<le> MAX_LANDING_SPEED \<and> \<bar>ac_angle a\<bar> \<le> MAX_LANDING_ANGLE
         then land a
         else crash a)
      else crash a)"

text \<open>
  \<^verbatim>\<open>_update_ground_physics\<close>. \<open>ground_speed\<close> is \<^verbatim>\<open>velocity.x\<close> after thrust,
  braking or friction, and the speed limit (the first three steps of the method).
\<close>

definition ground_speed :: "real \<Rightarrow> Aircraft \<Rightarrow> real" where
  "ground_speed dt a =
     (let vx1 = (if ac_thrust a > 0
                 then fst (ac_velocity a) + ac_thrust a * ac_acceleration_rate a * dt
                 else fst (ac_velocity a));
          vx2 = (if ac_brakes_active a then vx1 * 0.95 else vx1 * ac_drag a)
      in min vx2 (ac_max_speed a))"

definition update_ground_physics :: "real \<Rightarrow> Aircraft \<Rightarrow> Aircraft" where
  "update_ground_physics dt a =
     (let vx = ground_speed dt a;
          px = fst (ac_position a) + vx;
          ang = max 0 (min 25 (ac_angle a));
          a1 = a\<lparr>ac_velocity := (vx, snd (ac_velocity a)),
                  ac_position := (px, snd (ac_position a)),
                  ac_angle := ang\<rparr>
      in if px \<ge> 240 \<and> vx \<ge> MIN_TAKEOFF_SPEED \<and> ang \<ge> 15
         then a1\<lparr>ac_on_ground := False, ac_has_taken_off := True, ac_gear_down := False,
                 ac_velocity := (vx, - 2.2)\<rparr>
         else a1)"

text \<open>
  \<^verbatim>\<open>_update_air_physics\<close> in three parts: the new velocity (thrust, lift, gravity,
  drag, flaps, spoilers, speed limits), the motion (position, pitch clamp, the
  horizontal band and the vertical clamp) and the final test
  \<^verbatim>\<open>if self.position.y >= GROUND_LEVEL: self._check_landing()\<close>.
\<close>

definition air_velocity :: "real \<Rightarrow> Aircraft \<Rightarrow> Vector2" where
  "air_velocity dt a =
     (let vx1 = (if ac_thrust a > 0 \<and> ac_fuel a > 0
                 then fst (ac_velocity a) + ac_thrust a * ac_acceleration_rate a * 0.5 * dt
                 else fst (ac_velocity a));
          lift = sin (radians (ac_angle a)) * ac_lift_factor a * vx1;
          vy1 = snd (ac_velocity a) - lift;
          vy2 = vy1 + GRAVITY * dt;
          vx2 = vx1 * (if \<not> ac_spoilers_active a then ac_drag a else 0.96);
          vy3 = vy2 * 0.99;
          vy4 = (if ac_flaps a > 0 then vy3 - ac_flaps a * 0.02 else vy3);
          vx3 = (if ac_flaps a > 0 then vx2 * 0.98 else vx2);
          vy5 = (if ac_spoilers_active a then vy4 + 0.1 else vy4)
      in (min vx3 (ac_max_speed a), max (- 5) (min 5 vy5)))"

definition air_motion :: "real \<Rightarrow> Aircraft \<Rightarrow> Aircraft" where
  "air_motion dt a =
     (let v = air_velocity dt a;
          px = fst (ac_position a) + fst v;
          py = snd (ac_position a) + snd v;
          ang = max (- 10) (min 30 (ac_angle a));
          px1 = (if ac_has_taken_off a then max 50 (min 250 px) else max 20 (min 780 px));
          py1 = max 20 (min 580 py)
      in a\<lparr>ac_velocity := v, ac_position := (px1, py1), ac_angle := ang\<rparr>)"

definition update_air_physics :: "real \<Rightarrow> Aircraft \<Rightarrow> Aircraft" where
  "update_air_physics dt a =
     (let a1 = air_motion dt a
      in if snd (ac_position a1) \<ge> GROUND_LEVEL then check_landing a1 else a1)"

text \<open>
  \<^verbatim>\<open>Aircraft.update\<close>. The second component is \<^verbatim>\<open>self.weapon_system\<close>, whose
  \<^verbatim>\<open>shield_energy\<close> the active shield drains.
\<close>

definition update_invulnerability :: "real \<Rightarrow> Aircraft \<Rightarrow> Aircraft" where
  "update_invulnerability dt a =
     (if ac_invulnerable a then
        (let a1 = a\<lparr>ac_invulnerable_timer := ac_invulnerable_timer a - dt\<rparr>
         in if ac_invulnerable_timer a1 \<le> 0 then a1\<lparr>ac_invulnerable := False\<rparr> else a1)
      else a)"

definition drain :: "real \<Rightarrow> WeaponSystem \<Rightarrow> WeaponSystem" where
  "drain amount w =
     (let w1 = w\<lparr>ws_shield_energy := ws_shield_energy w - amount\<rparr>
      in if ws_shield_energy w1 < 0 then w1\<lparr>ws_shield_energy := 0\<rparr> else w1)"

definition update_shield ::
  "real \<Rightarrow> Aircraft \<times> WeaponSystem option \<Rightarrow> Aircraft \<times> WeaponSystem option" where
  "update_shield dt s =
     (case s of (a, wo) \<Rightarrow>
        if ac_shield_active a then
          (let a1 = a\<lparr>ac_shield_duration := ac_shield_duration a - dt\<rparr>;
               wo1 = map_option (drain (3 * dt)) wo
           in if ac_shield_duration a1 \<le> 0
                 \<or> (case wo1 of None \<Rightarrow> False | Some w \<Rightarrow> ws_shield_energy w \<le> 0)
              then (a1\<lparr>ac_shield_active := False, ac_shield_duration := 0\<rparr>, wo1)
              else (a1, wo1))
        else (a, wo))"

definition update_fuel :: "real \<Rightarrow> Aircraft \<Rightarrow> Aircraft" where
  "update_fuel dt a =
     (if ac_thrust a > 0 then
        (let a1 = a\<lparr>ac_fuel := max 0 (ac_fuel a - ac_thrust a * 0.005 * dt)\<rparr>
         in if ac_fuel a1 \<le> 0 then a1\<lparr>ac_thrust := 0\<rparr> else a1)
      else a)"

definition Aircraft_update ::
  "real \<Rightarrow> Aircraft \<times> WeaponSystem option \<Rightarrow> Aircraft \<times> WeaponSystem option" where
  "Aircraft_update dt s =
     (case update_shield dt (update_invulnerability dt (fst s), snd s) of (a2, wo2) \<Rightarrow>
        (update_fuel dt (if ac_on_ground a2 then update_ground_physics dt a2
                         else update_air_physics dt a2),
         wo2))"

definition Aircraft_take_damage :: "real \<Rightarrow> Aircraft \<Rightarrow> bool \<times> Aircraft" where
  "Aircraft_take_damage amount a =
     (if ac_invulnerable a then (False, a)
      else
        let a1 = a\<lparr>ac_health := ac_health a - amount\<rparr>;
            a2 = (if ac_health a1 < 0 then a1\<lparr>ac_health := 0\<rparr> else a1);
            a3 = a2\<lparr>ac_invulnerable := True, ac_invulnerable_timer := 0.2\<rparr>
        in (ac_health a3 \<le> 0, a3))"

definition take_shield_hit ::
  "real \<Rightarrow> Aircraft \<times> WeaponSystem option \<Rightarrow> Aircraft \<times> WeaponSystem option" where
  "take_shield_hit energy_cost s =
     (case s of (a, wo) \<Rightarrow>
        (case wo of
           None \<Rightarrow> (a, wo)
         | Some w \<Rightarrow>
             if \<not> ac_shield_active a then (a, wo)
             else
               let w1 = drain energy_cost w
               in if ws_shield_energy w1 \<le> 0
                  then (a\<lparr>ac_shield_active := False, ac_shield_duration := 0\<rparr>, Some w1)
                  else (a, Some w1)))"

definition heal :: "real \<Rightarrow> Aircraft \<Rightarrow> Aircraft" where
  "heal amount a = a\<lparr>ac_health := min (ac_max_health a) (ac_health a + amount)\<rparr>"

definition add_fuel :: "real \<Rightarrow> Aircraft \<Rightarrow> Aircraft" where
  "add_fuel amount a = a\<lparr>ac_fuel := min (ac_max_fuel a) (ac_fuel a + amount)\<rparr>"

definition Aircraft_activate_shield :: "real \<Rightarrow> Aircraft \<Rightarrow> Aircraft" where
  "Aircraft_activate_shield duration a =
     a\<lparr>ac_shield_active := True, ac_shield_duration := duration\<rparr>"

definition add_score :: "int \<Rightarrow> Aircraft \<Rightarrow> Aircraft" where
  "add_score points a = a\<lparr>ac_score := ac_score a + points\<rparr>"

definition lose_life :: "Aircraft \<Rightarrow> Aircraft" where
  "lose_life a =
     (let a1 = a\<lparr>ac_lives := ac_lives a - 1\<rparr>
      in if ac_lives a1 > 0
         then a1\<lparr>ac_health := ac_max_health a1, ac_position := (100, GROUND_LEVEL),
                 ac_velocity := (0, 0), ac_angle := 0, ac_on_ground := True,
                 ac_has_taken_off := False, ac_gear_down := True, ac_thrust := 0,
                 ac_invulnerable := True, ac_invulnerable_timer := 2.0\<rparr>
         else a1)"

subsection \<open>enemies.py: EnemyManager\<close>

text \<open>
  The manager owns the store of the Enemy and Boss objects it has created; \<open>em_next\<close>
  is the next unused identity. \<open>em_enemies\<close> and \<open>em_boss\<close> are the attributes
  \<^verbatim>\<open>enemies\<close> and \<^verbatim>\<open>boss\<close>, as references. A spawn-queue entry
  \<^verbatim>\<open>{'type': t, 'y': y}\<close> is the pair \<open>(t, y)\<close>.
  A new manager has created no object: every cell of its store holds a placeholder
  that no reference points to.
  \<open>em_boss_defeated\<close> is the attribute \<^verbatim>\<open>boss_defeated\<close> that
  \<^verbatim>\<open>LevelManager.update\<close> looks for with \<^verbatim>\<open>hasattr\<close>: None while the object has no
  such attribute. No statement of the repository assigns it.
\<close>

record EnemyManager =
  em_enemy_objs :: "oid \<Rightarrow> Enemy"
  em_boss_objs :: "oid \<Rightarrow> Boss"
  em_next :: oid
  em_enemies :: "oid list"
  em_boss :: "oid option"
  em_projectiles :: "EnemyProjectile list"
  em_spawn_timer :: real
  em_spawn_delay :: real
  em_spawn_queue :: "(string \<times> real) list"
  em_boss_defeated :: "bool option"

definition em_store :: "EnemyManager \<Rightarrow> store" where
  "em_store em = (em_enemy_objs em, em_boss_objs em)"

definition EnemyManager_init :: EnemyManager where
  "EnemyManager_init =
     \<lparr>em_enemy_objs = (\<lambda>i. Enemy_init (0, 0) []), em_boss_objs = (\<lambda>i. Boss_init (0, 0) []),
      em_next = 0,
      em_enemies = [], em_boss = None, em_projectiles = [], em_spawn_timer = 0,
      em_spawn_delay = 2.0, em_spawn_queue = [], em_boss_defeated = None\<rparr>"

definition set_spawn_queue :: "(string \<times> real) list \<Rightarrow> EnemyManager \<Rightarrow> EnemyManager" where
  "set_spawn_queue queue em = em\<lparr>em_spawn_queue := queue, em_spawn_timer := 0\<rparr>"

definition spawn_boss :: "string \<Rightarrow> EnemyManager \<Rightarrow> EnemyManager" where
  "spawn_boss boss_type em =
     em\<lparr>em_boss_objs := (em_boss_objs em)(em_next em := Boss_init (900, 300) boss_type),
        em_boss := Some (em_next em),
        em_next := em_next em + 1,
        em_enemies := []\<rparr>"

definition spawn_from_queue :: "real \<Rightarrow> EnemyManager \<Rightarrow> EnemyManager" where
  "spawn_from_queue dt em =
     (let em1 = em\<lparr>em_spawn_timer := em_spawn_timer em + dt\<rparr>
      in case em_spawn_queue em1 of
           [] \<Rightarrow> em1
         | (t, y) # rest \<Rightarrow>
             if em_spawn_timer em1 \<ge> em_spawn_delay em1
             then em1\<lparr>em_spawn_timer := 0, em_spawn_queue := rest,
                      em_enemy_objs := (em_enemy_objs em1)(em_next em1 := Enemy_init (850, y) t),
                      em_enemies := em_enemies em1 @ [em_next em1],
                      em_next := em_next em1 + 1\<rparr>
             else em1)"

text \<open>
  The loop \<^verbatim>\<open>for enemy in self.enemies[:]\<close>: the first list is the copy being walked.
  \<open>rnd r\<close> is the random number the object \<open>r\<close> draws in this tick.
\<close>

fun update_enemies ::
  "real \<Rightarrow> Vector2 \<Rightarrow> (ref \<Rightarrow> real) \<Rightarrow> oid list \<Rightarrow> EnemyManager \<Rightarrow> error + EnemyManager" where
  "update_enemies dt player_pos rnd [] em = Inr em"
| "update_enemies dt player_pos rnd (i # rest) em =
     (case Enemy_update dt player_pos (rnd (EnemyRef i)) (em_enemy_objs em i) of
        Inl err \<Rightarrow> Inl err
      | Inr (new_projectiles, e) \<Rightarrow>
          update_enemies dt player_pos rnd rest
            (em\<lparr>em_enemy_objs := (em_enemy_objs em)(i := e),
                em_projectiles := em_projectiles em @ new_projectiles,
                em_enemies := (if \<not> en_active e then remove1 i (em_enemies em)
                               else em_enemies em)\<rparr>))"

definition update_boss ::
  "real \<Rightarrow> Vector2 \<Rightarrow> (ref \<Rightarrow> real) \<Rightarrow> EnemyManager \<Rightarrow> error + EnemyManager" where
  "update_boss dt player_pos rnd em =
     (case em_boss em of
        None \<Rightarrow> Inr em
      | Some i \<Rightarrow>
          (case Boss_update dt player_pos (rnd (BossRef i)) (em_boss_objs em i) of
             Inl err \<Rightarrow> Inl err
           | Inr (new_projectiles, b) \<Rightarrow>
               Inr (em\<lparr>em_boss_objs := (em_boss_objs em)(i := b),
                       em_projectiles := em_projectiles em @ new_projectiles,
                       em_boss := (if \<not> bs_active b then None else Some i)\<rparr>)))"

text \<open>The list \<^verbatim>\<open>self.enemies + ([self.boss] if self.boss else [])\<close> handed to the missiles.\<close>

definition missile_targets :: "EnemyManager \<Rightarrow> ref list" where
  "missile_targets em =
     map EnemyRef (em_enemies em) @ (case em_boss em of None \<Rightarrow> [] | Some i \<Rightarrow> [BossRef i])"

definition update_missiles :: "real \<Rightarrow> EnemyManager \<Rightarrow> HomingMissile list \<Rightarrow> HomingMissile list" where
  "update_missiles dt em missiles =
     map (\<lambda>m. if hm_active m then HomingMissile_update dt (em_store em) (missile_targets em) m
               else m) missiles"

text \<open>
  \<^verbatim>\<open>EnemyManager.update\<close>. The missiles belong to the weapon system; the method updates
  them in place, so the updated list is returned with the manager.
\<close>

definition EnemyManager_update ::
  "real \<Rightarrow> Vector2 \<Rightarrow> (ref \<Rightarrow> real) \<Rightarrow> HomingMissile list \<Rightarrow> EnemyManager
     \<Rightarrow> error + EnemyManager \<times> HomingMissile list" where
  "EnemyManager_update dt player_pos rnd missiles em =
     (let em1 = spawn_from_queue dt em
      in case update_enemies dt player_pos rnd (em_enemies em1) em1 of
           Inl err \<Rightarrow> Inl err
         | Inr em2 \<Rightarrow>
             (case update_boss dt player_pos rnd em2 of
                Inl err \<Rightarrow> Inl err
              | Inr em3 \<Rightarrow>
                  Inr (em3\<lparr>em_projectiles :=
                             filter ep_active (map (EnemyProjectile_update dt) (em_projectiles em3))\<rparr>,
                       update_missiles dt em3 missiles)))"

definition is_wave_complete :: "EnemyManager \<Rightarrow> bool" where
  "is_wave_complete em \<longleftrightarrow>
     length (em_enemies em) = 0 \<and> length (em_spawn_queue em) = 0 \<and> em_boss em = None"

subsection \<open>levels.py: LevelManager\<close>

record Wave =
  wv_enemies :: "(string \<times> real) list"
  wv_delay :: "real option"

record LevelData =
  ld_name :: string
  ld_difficulty :: string
  ld_description :: string
  ld_boss :: string
  ld_waves :: "Wave list"

definition wave :: "(string \<times> real) list \<Rightarrow> real \<Rightarrow> Wave" where
  "wave es d = \<lparr>wv_enemies = es, wv_delay = Some d\<rparr>"

definition level_1_data :: LevelData where
  "level_1_data =
     \<lparr>ld_name = ''Level 1: Drone Scramble'', ld_difficulty = ''Easy'',
      ld_description = ''Basic combat training. Eliminate enemy drones.'',
      ld_boss = ''hive_queen'',
      ld_waves =
        [wave [(''drone'', 150), (''drone'', 250), (''drone'', 350), (''drone'', 450)] 1.5,
         wave [(''drone'', 100), (''drone'', 200), (''drone'', 300), (''drone'', 400),
               (''drone'', 500)] 1.2,
         wave [(''drone'', 150), (''bomber'', 250), (''drone'', 350), (''bomber'', 450)] 1.5,
         wave [(''drone'', 100), (''drone'', 200), (''bomber'', 300), (''drone'', 400),
               (''bomber'', 500), (''drone'', 250)] 1.0,
         wave [(''bomber'', 150), (''drone'', 200), (''drone'', 300), (''bomber'', 400),
               (''drone'', 450)] 1.2]\<rparr>"

definition level_2_data :: LevelData where
  "level_2_data =
     \<lparr>ld_name = ''Level 2: Stormfront Assault'', ld_difficulty = ''Medium'',
      ld_description = ''Enemy reinforcements incoming with gunship support.'',
      ld_boss = ''aegis_defender'',
      ld_waves =
        [wave [(''drone'', 120), (''bomber'', 220), (''gunship'', 300), (''bomber'', 380),
               (''drone'', 480)] 1.2,
         wave [(''gunship'', 150), (''drone'', 250), (''gunship'', 350), (''drone'', 450)] 1.5,
         wave [(''elite'', 200), (''bomber'', 300), (''elite'', 400), (''gunship'', 250),
               (''gunship'', 350)] 1.3,
         wave [(''drone'', 100), (''elite'', 180), (''bomber'', 260), (''gunship'', 340),
               (''elite'', 420), (''drone'', 500)] 1.0,
         wave [(''kamikaze'', 150), (''kamikaze'', 250), (''elite'', 300), (''kamikaze'', 350),
               (''kamikaze'', 450)] 1.1,
         wave [(''elite'', 120), (''gunship'', 200), (''bomber'', 280), (''gunship'', 360),
               (''elite'', 440)] 1.2]\<rparr>"

definition level_3_data :: LevelData where
  "level_3_data =
     \<lparr>ld_name = ''Level 3: Final Showdown'', ld_difficulty = ''Hard'',
      ld_description = ''The enemy's ultimate weapon approaches. Survive at all costs!'',
      ld_boss = ''final_destroyer'',
      ld_waves =
        [wave [(''kamikaze'', 100), (''elite'', 180), (''gunship'', 260), (''kamikaze'', 340),
               (''elite'', 420), (''kamikaze'', 500)] 0.9,
         wave [(''elite'', 150), (''elite'', 250), (''elite'', 350), (''elite'', 450)] 1.3,
         wave [(''bomber'', 120), (''gunship'', 200), (''elite'', 280), (''gunship'', 360),
               (''bomber'', 440), (''kamikaze'', 300)] 0.8,
         wave [(''kamikaze'', 150), (''kamikaze'', 200), (''elite'', 250), (''kamikaze'', 300),
               (''kamikaze'', 350), (''elite'', 400), (''kamikaze'', 450)] 0.7,
         wave [(''elite'', 100), (''gunship'', 170), (''bomber'', 240), (''kamikaze'', 280),
               (''elite'', 340), (''gunship'', 410), (''kamikaze'', 480)] 0.9,
         wave [(''elite'', 150), (''elite'', 250), (''gunship'', 200), (''gunship'', 350),
               (''bomber'', 300), (''kamikaze'', 400)] 1.0,
         wave [(''elite'', 180), (''elite'', 280), (''elite'', 380), (''kamikaze'', 230),
               (''kamikaze'', 330)] 1.0]\<rparr>"

definition get_level_data :: "int \<Rightarrow> LevelData" where
  "get_level_data level_num =
     (if level_num = 1 then level_1_data
      else if level_num = 2 then level_2_data
      else if level_num = 3 then level_3_data
      else level_1_data)"

text \<open>
  The background layers only feed the drawing code and are left out. \<open>lm_current_wave\<close>
  starts at 0 and is only ever incremented, so it is a natural number.
\<close>

record LevelManager =
  lm_current_level :: int
  lm_max_levels :: int
  lm_current_wave :: nat
  lm_wave_complete :: bool
  lm_level_complete :: bool
  lm_scroll_x :: real
  lm_scroll_speed :: real
  lm_waves_started :: bool

definition LevelManager_init :: "int \<Rightarrow> LevelManager" where
  "LevelManager_init level =
     \<lparr>lm_current_level = level, lm_max_levels = 3, lm_current_wave = 0,
      lm_wave_complete = False, lm_level_complete = False, lm_scroll_x = 0,
      lm_scroll_speed = 1.0, lm_waves_started = False\<rparr>"

text \<open>
  The three statements that start a wave, which \<^verbatim>\<open>update\<close> has twice:
  \<^verbatim>\<open>wave = level_data['waves'][self.current_wave]\<close>,
  \<^verbatim>\<open>enemy_manager.set_spawn_queue(wave['enemies'])\<close>,
  \<^verbatim>\<open>enemy_manager.spawn_delay = wave.get('delay', 0.8)\<close>;
  both times under the guard \<^verbatim>\<open>self.current_wave < len(level_data['waves'])\<close>.
\<close>

definition start_wave :: "LevelData \<Rightarrow> nat \<Rightarrow> EnemyManager \<Rightarrow> EnemyManager" where
  "start_wave level_data n em =
     (if n < length (ld_waves level_data) then
        (let w = ld_waves level_data ! n
         in (set_spawn_queue (wv_enemies w) em)
              \<lparr>em_spawn_delay := (case wv_delay w of None \<Rightarrow> 0.8 | Some d \<Rightarrow> d)\<rparr>)
      else em)"

definition LevelManager_update ::
  "real \<Rightarrow> Aircraft \<Rightarrow> LevelManager \<times> EnemyManager \<Rightarrow> LevelManager \<times> EnemyManager" where
  "LevelManager_update dt aircraft s =
     (case s of (lm, em) \<Rightarrow>
        let lm1 = lm\<lparr>lm_scroll_x := lm_scroll_x lm + lm_scroll_speed lm * dt * 60\<rparr>
        in if \<not> ac_has_taken_off aircraft then (lm1, em)
           else
             let level_data = get_level_data (lm_current_level lm1);
                 lm2 = (if \<not> lm_waves_started lm1 then lm1\<lparr>lm_waves_started := True\<rparr> else lm1);
                 em2 = (if \<not> lm_waves_started lm1
                        then start_wave level_data (lm_current_wave lm1) em else em)
             in if lm_current_wave lm2 \<ge> length (ld_waves level_data) then
                  (if em_boss em2 = None \<and> em_boss_defeated em2 = None
                   then (lm2, spawn_boss (ld_boss level_data) em2)
                   else if em_boss em2 = None \<and> em_boss_defeated em2 = Some True
                   then (lm2\<lparr>lm_level_complete := True\<rparr>, em2)
                   else (lm2, em2))
                else if is_wave_complete em2 then
                  (let lm3 = lm2\<lparr>lm_current_wave := lm_current_wave lm2 + 1\<rparr>
                   in (lm3, start_wave level_data (lm_current_wave lm3) em2))
                else (lm2, em2))"

subsection \<open>Histories of a boss\<close>

text \<open>
  What can happen to a boss between its creation and a given moment: updates (with the
  tick length, the player position and the random draw of that tick) and hits.
\<close>

datatype boss_event = Tick real Vector2 real | Hit real

fun boss_run :: "boss_event list \<Rightarrow> Boss \<Rightarrow> error + Boss" where
  "boss_run [] b = Inr b"
| "boss_run (Tick dt player_pos rnd # evs) b =
     (case Boss_update dt player_pos rnd b of
        Inl err \<Rightarrow> Inl err
      | Inr (projectiles, b1) \<Rightarrow> boss_run evs b1)"
| "boss_run (Hit amount # evs) b = boss_run evs (snd (Boss_take_damage amount b))"

subsection \<open>The bounds on health and fuel\<close>

text \<open>
  For the aircraft: health and fuel between 0 and their maxima. For an enemy or a boss:
  health at most the maximum, and positive while the object is active.
\<close>

definition aircraft_bounds :: "Aircraft \<Rightarrow> bool" where
  "aircraft_bounds a \<longleftrightarrow>
     0 \<le> ac_health a \<and> ac_health a \<le> ac_max_health a
     \<and> 0 \<le> ac_fuel a \<and> ac_fuel a \<le> ac_max_fuel a"

definition enemy_bounds :: "Enemy \<Rightarrow> bool" where
  "enemy_bounds e \<longleftrightarrow> en_health e \<le> en_max_health e \<and> (en_active e \<longrightarrow> 0 < en_health e)"

definition boss_bounds :: "Boss \<Rightarrow> bool" where
  "boss_bounds b \<longleftrightarrow> bs_health b \<le> bs_max_health b \<and> (bs_active b \<longrightarrow> 0 < bs_health b)"

subsection \<open>A level after its last wave\<close>

text \<open>
  The run used to follow the end of level 1: the aircraft is airborne and all five waves
  are done (\<open>waves_done\<close>); one \<^verbatim>\<open>LevelManager.update\<close> brings the boss
  (\<open>boss_stage\<close>, \<open>boss_spawned\<close>); a hit of 800, as \<^verbatim>\<open>check_collisions\<close> would apply it
  through \<^verbatim>\<open>enemy_manager.boss.take_damage\<close>, destroys it (\<open>boss_destroyed\<close>); the next
  \<^verbatim>\<open>EnemyManager.update\<close> drops the inactive boss (\<open>boss_removed\<close>). No enemy draws a
  random number in this run (\<open>no_draw\<close>).
\<close>

definition airborne :: Aircraft where
  "airborne = Aircraft_init\<lparr>ac_on_ground := False, ac_has_taken_off := True, ac_gear_down := False\<rparr>"

definition waves_done :: LevelManager where
  "waves_done = (LevelManager_init 1)\<lparr>lm_current_wave := 5, lm_waves_started := True\<rparr>"

definition no_draw :: "ref \<Rightarrow> real" where
  "no_draw r = 1"

definition boss_stage :: "LevelManager \<times> EnemyManager" where
  "boss_stage = LevelManager_update (1 / 60) airborne (waves_done, EnemyManager_init)"

definition boss_spawned :: EnemyManager where
  "boss_spawned = snd boss_stage"

definition boss_destroyed :: EnemyManager where
  "boss_destroyed =
     boss_spawned\<lparr>em_boss_objs :=
       (em_boss_objs boss_spawned)(0 := snd (Boss_take_damage 800 (em_boss_objs boss_spawned 0)))\<rparr>"

definition boss_removed :: EnemyManager where
  "boss_removed = boss_destroyed\<lparr>em_boss := None, em_spawn_timer := 1 / 60\<rparr>"

subsection \<open>Distances and a scene with two drones\<close>

text \<open>
  \<open>dist_to objs pos r\<close> is the distance \<^verbatim>\<open>(enemy.position - self.position).length()\<close>
  that \<^verbatim>\<open>_find_nearest_enemy\<close> compares. The scene: two active drones at
  \<open>(200, 300)\<close> (object 0) and \<open>(800, 300)\<close> (object 1), and a new missile at
  \<open>(100, 300)\<close> that is locked on the far one.
\<close>

definition dist_to :: "store \<Rightarrow> Vector2 \<Rightarrow> ref \<Rightarrow> real" where
  "dist_to objs pos r = vlength (vsub (ref_position objs r) pos)"

definition two_drones :: store where
  "two_drones =
     (\<lambda>i. if i = 0 then Enemy_init (200, 300) ''drone'' else Enemy_init (800, 300) ''drone'',
      \<lambda>i. Boss_init (900, 300) ''hive_queen'')"

definition locked_missile :: HomingMissile where
  "locked_missile = (HomingMissile_init (100, 300))\<lparr>hm_target := Some (EnemyRef 1)\<rparr>"

section \<open>Boss: damage during the phase-transition window\<close>

lemma hive_queen_attack_keeps:
  "hive_queen_attack dt pp b = Inr (ps, b') \<Longrightarrow>
     bs_health b' = bs_health b \<and> bs_max_health b' = bs_max_health b
     \<and> bs_active b' = bs_active b \<and> bs_entered b' = bs_entered b"
  by (auto simp: hive_queen_attack_def split: if_splits sum.splits)

lemma aegis_defender_attack_keeps:
  "aegis_defender_attack dt pp b = Inr (ps, b') \<Longrightarrow>
     bs_health b' = bs_health b \<and> bs_max_health b' = bs_max_health b
     \<and> bs_active b' = bs_active b \<and> bs_entered b' = bs_entered b"
  by (auto simp: aegis_defender_attack_def split: if_splits sum.splits)

lemma final_destroyer_attack_keeps:
  "final_destroyer_attack dt pp rnd b = Inr (ps, b') \<Longrightarrow>
     bs_health b' = bs_health b \<and> bs_max_health b' = bs_max_health b
     \<and> bs_active b' = bs_active b \<and> bs_entered b' = bs_entered b"
  by (auto simp: final_destroyer_attack_def Let_def split: if_splits sum.splits)

lemma attack_keeps:
  "attack dt pp rnd b = Inr (ps, b') \<Longrightarrow>
     bs_health b' = bs_health b \<and> bs_max_health b' = bs_max_health b
     \<and> bs_active b' = bs_active b \<and> bs_entered b' = bs_entered b"
  unfolding attack_def
  using hive_queen_attack_keeps [of dt pp b ps b'] aegis_defender_attack_keeps [of dt pp b ps b']
        final_destroyer_attack_keeps [of dt pp rnd b ps b']
  by (simp split: if_splits)

lemma update_movement_keeps [simp]:
  "bs_health (update_movement dt pp b) = bs_health b"
  "bs_max_health (update_movement dt pp b) = bs_max_health b"
  "bs_active (update_movement dt pp b) = bs_active b"
  "bs_entered (update_movement dt pp b) = bs_entered b"
  by (simp_all add: update_movement_def)

lemma check_phase_transitions_keeps [simp]:
  "bs_health (check_phase_transitions b) = bs_health b"
  "bs_max_health (check_phase_transitions b) = bs_max_health b"
  "bs_active (check_phase_transitions b) = bs_active b"
  "bs_entered (check_phase_transitions b) = bs_entered b"
  by (simp_all add: check_phase_transitions_def Let_def)

lemma Boss_update_not_entered:
  "bs_active b \<Longrightarrow> \<not> bs_entered b \<Longrightarrow>
   Boss_update dt pp rnd b =
     Inr ([], if fst (bs_position b) > bs_entry_target_x b
              then b\<lparr>bs_move_timer := bs_move_timer b + dt,
                     bs_attack_timer := bs_attack_timer b + dt,
                     bs_position := (fst (bs_position b) - 3, snd (bs_position b))\<rparr>
              else b\<lparr>bs_move_timer := bs_move_timer b + dt,
                     bs_attack_timer := bs_attack_timer b + dt,
                     bs_entered := True\<rparr>)"
  by (simp add: Boss_update_def Let_def)

lemma Boss_update_keeps:
  assumes "Boss_update dt pp rnd b = Inr (ps, b')"
  shows "bs_health b' = bs_health b \<and> bs_max_health b' = bs_max_health b
         \<and> bs_active b' = bs_active b \<and> (bs_entered b \<longrightarrow> bs_entered b')"
proof (cases "bs_active b")
  case False
  with assms show ?thesis by (simp add: Boss_update_def)
next
  case act: True
  show ?thesis
  proof (cases "bs_entered b")
    case False
    with assms act show ?thesis by (auto simp: Boss_update_not_entered)
  next
    case ent: True
    define b2 where "b2 = check_phase_transitions
                            (b\<lparr>bs_move_timer := bs_move_timer b + dt,
                               bs_attack_timer := bs_attack_timer b + dt\<rparr>)"
    have h2: "bs_health b2 = bs_health b" "bs_max_health b2 = bs_max_health b"
      "bs_active b2 = bs_active b" "bs_entered b2"
      using ent by (simp_all add: b2_def)
    have upd: "Boss_update dt pp rnd b =
       (if bs_max_health b = 0 then Inl ZeroDivisionError
        else if bs_phase_transition_timer b2 > 0
        then Inr ([], b2\<lparr>bs_phase_transition_timer := bs_phase_transition_timer b2 - dt\<rparr>)
        else (case attack dt pp rnd b2 of
                Inl err \<Rightarrow> Inl err
              | Inr (projectiles, b3) \<Rightarrow> Inr (projectiles, update_movement dt pp b3)))"
      using act ent by (simp add: Boss_update_def Let_def b2_def)
    show ?thesis
    proof (cases "bs_phase_transition_timer b2 > 0")
      case True
      with assms upd h2 show ?thesis by (auto split: if_splits)
    next
      case False
      with assms upd obtain b3 where
        a: "attack dt pp rnd b2 = Inr (ps, b3)" and b: "b' = update_movement dt pp b3"
        by (auto split: if_splits sum.splits)
      from attack_keeps [OF a] b h2 show ?thesis by simp
    qed
  qed
qed

lemma Boss_update_health:
  "Boss_update dt pp rnd b = Inr (ps, b') \<Longrightarrow> bs_health b' = bs_health b"
  by (simp add: Boss_update_keeps)

text \<open>
  Claim C5. While the phase-transition timer is positive, \<^verbatim>\<open>Boss.take_damage\<close> returns
  False and changes nothing of the boss (so neither its health nor its active flag),
  whatever the amount; and \<^verbatim>\<open>Boss.update\<close>, the only other method that writes boss
  fields, never writes the health. So the health cannot decrease during the window.
\<close>

theorem boss_invulnerable_in_phase_transition:
  "0 < bs_phase_transition_timer b \<Longrightarrow>
     Boss_take_damage amount b = (False, b)
     \<and> bs_health (snd (Boss_take_damage amount b)) = bs_health b
     \<and> bs_active (snd (Boss_take_damage amount b)) = bs_active b
     \<and> (\<forall>dt pp rnd ps b'. Boss_update dt pp rnd b = Inr (ps, b') \<longrightarrow> bs_health b' = bs_health b)"
  by (auto simp: Boss_take_damage_def dest: Boss_update_health)

theorem boss_invulnerable_in_phase_transition_witness:
  "0 < bs_phase_transition_timer
         ((Boss_init (900, 300) ''hive_queen'')\<lparr>bs_phase := 2, bs_health := 500,
                                                bs_phase_transition_timer := 2\<rparr>)
   \<and> Boss_take_damage 40
         ((Boss_init (900, 300) ''hive_queen'')\<lparr>bs_phase := 2, bs_health := 500,
                                                bs_phase_transition_timer := 2\<rparr>)
       = (False, (Boss_init (900, 300) ''hive_queen'')\<lparr>bs_phase := 2, bs_health := 500,
                                                        bs_phase_transition_timer := 2\<rparr>)"
  using boss_invulnerable_in_phase_transition
          [of "(Boss_init (900, 300) ''hive_queen'')\<lparr>bs_phase := 2, bs_health := 500,
                                                     bs_phase_transition_timer := 2\<rparr>" 40]
  by (simp add: Boss_init_def)

section \<open>Aircraft: what the parts of update leave alone\<close>

lemma update_invulnerability_keeps [simp]:
  "ac_on_ground (update_invulnerability dt a) = ac_on_ground a"
  "ac_health (update_invulnerability dt a) = ac_health a"
  by (simp_all add: update_invulnerability_def Let_def)

lemma update_shield_keeps [simp]:
  "ac_on_ground (fst (update_shield dt (a, wo))) = ac_on_ground a"
  "ac_invulnerable (fst (update_shield dt (a, wo))) = ac_invulnerable a"
  "ac_health (fst (update_shield dt (a, wo))) = ac_health a"
  by (simp_all add: update_shield_def Let_def)

lemma update_fuel_keeps [simp]:
  "ac_on_ground (update_fuel dt a) = ac_on_ground a"
  "ac_invulnerable (update_fuel dt a) = ac_invulnerable a"
  "ac_health (update_fuel dt a) = ac_health a"
  "ac_position (update_fuel dt a) = ac_position a"
  "ac_velocity (update_fuel dt a) = ac_velocity a"
  "ac_angle (update_fuel dt a) = ac_angle a"
  "ac_has_taken_off (update_fuel dt a) = ac_has_taken_off a"
  "ac_gear_down (update_fuel dt a) = ac_gear_down a"
  by (simp_all add: update_fuel_def Let_def)

lemma update_ground_physics_keeps [simp]:
  "ac_invulnerable (update_ground_physics dt a) = ac_invulnerable a"
  "ac_health (update_ground_physics dt a) = ac_health a"
  by (simp_all add: update_ground_physics_def Let_def)

lemma check_landing_keeps [simp]:
  "ac_invulnerable (check_landing a) = ac_invulnerable a"
  by (simp add: check_landing_def land_def crash_def)

lemma air_motion_keeps [simp]:
  "ac_invulnerable (air_motion dt a) = ac_invulnerable a"
  "ac_health (air_motion dt a) = ac_health a"
  by (simp_all add: air_motion_def Let_def)

lemma update_air_physics_keeps [simp]:
  "ac_invulnerable (update_air_physics dt a) = ac_invulnerable a"
  by (simp add: update_air_physics_def Let_def)

lemma Aircraft_update_fst:
  "fst (Aircraft_update dt (a, wo)) =
     update_fuel dt
       (if ac_on_ground a
        then update_ground_physics dt (fst (update_shield dt (update_invulnerability dt a, wo)))
        else update_air_physics dt (fst (update_shield dt (update_invulnerability dt a, wo))))"
proof -
  obtain a2 wo2 where s: "update_shield dt (update_invulnerability dt a, wo) = (a2, wo2)"
    by (cases "update_shield dt (update_invulnerability dt a, wo)")
  have "ac_on_ground a2 = ac_on_ground a"
    using update_shield_keeps(1) [of dt "update_invulnerability dt a" wo] by (simp add: s)
  then show ?thesis by (simp add: Aircraft_update_def s)
qed

lemma Aircraft_update_invulnerable:
  "ac_invulnerable (fst (Aircraft_update dt (a, wo))) =
     ac_invulnerable (update_invulnerability dt a)"
  by (simp add: Aircraft_update_fst)

lemma pre_physics_shape:
  "fst (update_shield dt (update_invulnerability dt a, wo)) =
     a\<lparr>ac_invulnerable := ac_invulnerable (update_invulnerability dt a),
       ac_invulnerable_timer := ac_invulnerable_timer (update_invulnerability dt a),
       ac_shield_active := ac_shield_active (fst (update_shield dt (a, wo))),
       ac_shield_duration := ac_shield_duration (fst (update_shield dt (a, wo)))\<rparr>"
  by (simp add: update_shield_def update_invulnerability_def Let_def)

lemma ground_takeoff:
  assumes "ac_on_ground a"
  shows "(\<not> ac_on_ground (update_ground_physics dt a) \<longleftrightarrow>
            fst (ac_position (update_ground_physics dt a)) \<ge> 240
            \<and> fst (ac_velocity (update_ground_physics dt a)) \<ge> 3.5
            \<and> ac_angle (update_ground_physics dt a) \<ge> 15)
         \<and> (\<not> ac_on_ground (update_ground_physics dt a) \<longrightarrow>
               ac_has_taken_off (update_ground_physics dt a)
               \<and> \<not> ac_gear_down (update_ground_physics dt a)
               \<and> snd (ac_velocity (update_ground_physics dt a)) = - 2.2)"
proof (cases "fst (ac_position a) + ground_speed dt a \<ge> 240
              \<and> ground_speed dt a \<ge> MIN_TAKEOFF_SPEED
              \<and> max 0 (min 25 (ac_angle a)) \<ge> 15")
  case True
  then show ?thesis
    unfolding update_ground_physics_def Let_def by (simp add: MIN_TAKEOFF_SPEED_def)
next
  case False
  then show ?thesis
    unfolding update_ground_physics_def Let_def using assms by (simp add: MIN_TAKEOFF_SPEED_def)
qed

lemma scenario_ground:
  assumes "fst (ac_position a) = 245" "fst (ac_velocity a) = 4" "ac_angle a = 16"
    "ac_thrust a = 0" "\<not> ac_brakes_active a" "ac_drag a = 0.97" "ac_max_speed a = 10"
  shows "\<not> ac_on_ground (update_ground_physics dt a)
         \<and> ac_has_taken_off (update_ground_physics dt a)
         \<and> \<not> ac_gear_down (update_ground_physics dt a)
         \<and> snd (ac_velocity (update_ground_physics dt a)) = - 2.2"
proof -
  have v: "ground_speed dt a = 3.88"
    using assms by (simp add: ground_speed_def)
  show ?thesis
    unfolding update_ground_physics_def Let_def v using assms
    by (simp add: MIN_TAKEOFF_SPEED_def)
qed


text \<open>
  Claim C1. For an aircraft on the ground, \<^verbatim>\<open>update\<close> leaves it airborne exactly when
  the values after the tick's ground physics satisfy \<open>position.x \<ge> 240\<close>,
  \<open>velocity.x \<ge> 3.5\<close> and \<open>angle \<ge> 15\<close> together; the transition sets
  \<open>has_taken_off\<close>, retracts the gear and sets \<open>velocity.y\<close> to \<open>-2.2\<close>. The scenario
  of the specification (x = 245, velocity.x = 4.0, angle = 16, thrust 0, brakes off, with
  the drag and speed limit of the constructor) takes off on the next update.
\<close>

theorem takeoff_transition:
  assumes "ac_on_ground a"
  shows "(\<not> ac_on_ground (fst (Aircraft_update dt (a, wo))) \<longleftrightarrow>
            fst (ac_position (fst (Aircraft_update dt (a, wo)))) \<ge> 240
            \<and> fst (ac_velocity (fst (Aircraft_update dt (a, wo)))) \<ge> 3.5
            \<and> ac_angle (fst (Aircraft_update dt (a, wo))) \<ge> 15)
       \<and> (\<not> ac_on_ground (fst (Aircraft_update dt (a, wo))) \<longrightarrow>
            ac_has_taken_off (fst (Aircraft_update dt (a, wo)))
            \<and> \<not> ac_gear_down (fst (Aircraft_update dt (a, wo)))
            \<and> snd (ac_velocity (fst (Aircraft_update dt (a, wo)))) = - 2.2)
       \<and> (fst (ac_position a) = 245 \<and> fst (ac_velocity a) = 4 \<and> ac_angle a = 16
            \<and> ac_thrust a = 0 \<and> \<not> ac_brakes_active a \<and> ac_drag a = 0.97
            \<and> ac_max_speed a = 10 \<longrightarrow>
            \<not> ac_on_ground (fst (Aircraft_update dt (a, wo)))
            \<and> ac_has_taken_off (fst (Aircraft_update dt (a, wo)))
            \<and> \<not> ac_gear_down (fst (Aircraft_update dt (a, wo)))
            \<and> snd (ac_velocity (fst (Aircraft_update dt (a, wo)))) = - 2.2)"
proof -
  define b where "b = fst (update_shield dt (update_invulnerability dt a, wo))"
  have g: "ac_on_ground b" using assms by (simp add: b_def)
  have u: "fst (Aircraft_update dt (a, wo)) = update_fuel dt (update_ground_physics dt b)"
    using assms by (simp add: Aircraft_update_fst b_def)
  have b: "b = a\<lparr>ac_invulnerable := ac_invulnerable (update_invulnerability dt a),
       ac_invulnerable_timer := ac_invulnerable_timer (update_invulnerability dt a),
       ac_shield_active := ac_shield_active (fst (update_shield dt (a, wo))),
       ac_shield_duration := ac_shield_duration (fst (update_shield dt (a, wo)))\<rparr>"
    unfolding b_def by (rule pre_physics_shape)
  have same: "ac_position b = ac_position a" "ac_velocity b = ac_velocity a"
    "ac_angle b = ac_angle a" "ac_thrust b = ac_thrust a"
    "ac_brakes_active b = ac_brakes_active a" "ac_drag b = ac_drag a"
    "ac_max_speed b = ac_max_speed a"
    by (subst b, simp)+
  note general = ground_takeoff [OF g, of dt]
  have scen: "fst (ac_position a) = 245 \<and> fst (ac_velocity a) = 4 \<and> ac_angle a = 16
            \<and> ac_thrust a = 0 \<and> \<not> ac_brakes_active a \<and> ac_drag a = 0.97
            \<and> ac_max_speed a = 10 \<longrightarrow>
         \<not> ac_on_ground (update_ground_physics dt b)
         \<and> ac_has_taken_off (update_ground_physics dt b)
         \<and> \<not> ac_gear_down (update_ground_physics dt b)
         \<and> snd (ac_velocity (update_ground_physics dt b)) = - 2.2"
    using scenario_ground [of b dt] by (simp add: same)
  show ?thesis unfolding u using general scen by simp
qed

theorem takeoff_transition_witness:
  "ac_on_ground (Aircraft_init\<lparr>ac_position := (245, 500), ac_velocity := (4, 0), ac_angle := 16\<rparr>)
   \<and> \<not> ac_on_ground (fst (Aircraft_update (1 / 60)
          (Aircraft_init\<lparr>ac_position := (245, 500), ac_velocity := (4, 0), ac_angle := 16\<rparr>, None)))
   \<and> snd (ac_velocity (fst (Aircraft_update (1 / 60)
          (Aircraft_init\<lparr>ac_position := (245, 500), ac_velocity := (4, 0), ac_angle := 16\<rparr>, None))))
       = - 2.2"
  using takeoff_transition
          [of "Aircraft_init\<lparr>ac_position := (245, 500), ac_velocity := (4, 0), ac_angle := 16\<rparr>"
              "1 / 60" None]
  by (simp add: Aircraft_init_def)

text \<open>
  Claim C4. \<^verbatim>\<open>Aircraft.take_damage\<close> returns False and changes nothing while the
  invulnerability flag is set. Otherwise the health becomes \<open>max 0 (health - amount)\<close>,
  the flag is set with a timer of 0.2, and the result is True exactly when the health is
  0 afterwards. When an update lets the timer run out, the flag is cleared by that same
  update, and the next hit (a positive amount on positive health) lowers the health.
\<close>

theorem take_damage_contract:
  "(ac_invulnerable a \<longrightarrow> Aircraft_take_damage amount a = (False, a))
   \<and> (\<not> ac_invulnerable a \<longrightarrow>
        ac_health (snd (Aircraft_take_damage amount a)) = max 0 (ac_health a - amount)
        \<and> ac_invulnerable (snd (Aircraft_take_damage amount a))
        \<and> ac_invulnerable_timer (snd (Aircraft_take_damage amount a)) = 0.2
        \<and> (fst (Aircraft_take_damage amount a)
             \<longleftrightarrow> ac_health (snd (Aircraft_take_damage amount a)) = 0))
   \<and> (ac_invulnerable a \<and> ac_invulnerable_timer a - dt \<le> 0 \<longrightarrow>
        \<not> ac_invulnerable (fst (Aircraft_update dt (a, wo)))
        \<and> (0 < amount \<and> 0 < ac_health (fst (Aircraft_update dt (a, wo))) \<longrightarrow>
             ac_health (snd (Aircraft_take_damage amount (fst (Aircraft_update dt (a, wo)))))
               < ac_health (fst (Aircraft_update dt (a, wo)))))"
proof -
  have hit: "\<And>b. \<not> ac_invulnerable b \<Longrightarrow>
     ac_health (snd (Aircraft_take_damage amount b)) = max 0 (ac_health b - amount)
     \<and> ac_invulnerable (snd (Aircraft_take_damage amount b))
     \<and> ac_invulnerable_timer (snd (Aircraft_take_damage amount b)) = 0.2
     \<and> (fst (Aircraft_take_damage amount b)
             \<longleftrightarrow> ac_health (snd (Aircraft_take_damage amount b)) = 0)"
    by (auto simp: Aircraft_take_damage_def Let_def)
  have expire: "ac_invulnerable a \<and> ac_invulnerable_timer a - dt \<le> 0 \<Longrightarrow>
      \<not> ac_invulnerable (fst (Aircraft_update dt (a, wo)))"
    by (simp add: Aircraft_update_invulnerable update_invulnerability_def Let_def)
  show ?thesis
  proof (intro conjI impI)
    assume "ac_invulnerable a"
    then show "Aircraft_take_damage amount a = (False, a)"
      by (simp add: Aircraft_take_damage_def)
  next
    assume h: "ac_invulnerable a \<and> ac_invulnerable_timer a - dt \<le> 0"
    show "\<not> ac_invulnerable (fst (Aircraft_update dt (a, wo)))" by (rule expire [OF h])
    assume "0 < amount \<and> 0 < ac_health (fst (Aircraft_update dt (a, wo)))"
    then show "ac_health (snd (Aircraft_take_damage amount (fst (Aircraft_update dt (a, wo)))))
               < ac_health (fst (Aircraft_update dt (a, wo)))"
      using hit [OF expire [OF h]] by linarith
  qed (use hit in blast)+
qed

theorem take_damage_contract_witness:
  "ac_invulnerable (Aircraft_init\<lparr>ac_invulnerable := True, ac_invulnerable_timer := 0.01\<rparr>)
   \<and> Aircraft_take_damage 10 (Aircraft_init\<lparr>ac_invulnerable := True, ac_invulnerable_timer := 0.01\<rparr>)
       = (False, Aircraft_init\<lparr>ac_invulnerable := True, ac_invulnerable_timer := 0.01\<rparr>)
   \<and> \<not> ac_invulnerable Aircraft_init
   \<and> ac_health (snd (Aircraft_take_damage 10 Aircraft_init)) = 90
   \<and> \<not> fst (Aircraft_take_damage 10 Aircraft_init)
   \<and> ac_health (snd (Aircraft_take_damage 10
        (fst (Aircraft_update (1 / 60)
           (Aircraft_init\<lparr>ac_invulnerable := True, ac_invulnerable_timer := 0.01\<rparr>, None))))) < 100"
  using take_damage_contract
          [of "Aircraft_init\<lparr>ac_invulnerable := True, ac_invulnerable_timer := 0.01\<rparr>"
              10 "1 / 60" None]
        take_damage_contract [of Aircraft_init 10 0 None]
  by (simp add: Aircraft_init_def Aircraft_update_fst)

section \<open>Aircraft: landing and crashing\<close>

text \<open>
  Claim C2. When the airborne motion of a tick ends with \<open>position.y\<close> at or below the
  ground line (\<open>position.y \<ge> GROUND_LEVEL\<close> in screen coordinates), the method calls
  \<^verbatim>\<open>_check_landing\<close>: inside the runway bounds with \<open>|velocity.y| \<le> 3.0\<close> and
  \<open>|angle| \<le> 15.0\<close> the result is \<^verbatim>\<open>land()\<close> (on the ground, \<open>velocity.y = 0\<close>,
  \<open>position.y = GROUND_LEVEL\<close>, gear down); in every other case it is \<^verbatim>\<open>crash()\<close>,
  which sets the health to 0.
\<close>

theorem landing_or_crash:
  assumes "snd (ac_position (air_motion dt a)) \<ge> GROUND_LEVEL"
  shows "if RUNWAY_X_START \<le> fst (ac_position (air_motion dt a))
            \<and> fst (ac_position (air_motion dt a)) \<le> RUNWAY_X_END
            \<and> \<bar>snd (ac_velocity (air_motion dt a))\<bar> \<le> 3.0
            \<and> \<bar>ac_angle (air_motion dt a)\<bar> \<le> 15.0
         then update_air_physics dt a = land (air_motion dt a)
              \<and> ac_on_ground (update_air_physics dt a)
              \<and> snd (ac_velocity (update_air_physics dt a)) = 0
              \<and> snd (ac_position (update_air_physics dt a)) = GROUND_LEVEL
              \<and> ac_gear_down (update_air_physics dt a)
         else update_air_physics dt a = crash (air_motion dt a)
              \<and> ac_health (update_air_physics dt a) = 0"
proof -
  have u: "update_air_physics dt a = check_landing (air_motion dt a)"
    using assms by (simp add: update_air_physics_def Let_def)
  show ?thesis
    unfolding u
    by (simp add: check_landing_def land_def crash_def MAX_LANDING_SPEED_def
                  MAX_LANDING_ANGLE_def)
qed

lemma air_motion_landing_example:
  "air_motion (1 / 60)
     (Aircraft_init\<lparr>ac_on_ground := False, ac_has_taken_off := True,
                    ac_position := (100, 499), ac_velocity := (3, 2)\<rparr>)
   = Aircraft_init\<lparr>ac_on_ground := False, ac_has_taken_off := True,
                     ac_position := (102.91, 500.98495), ac_velocity := (2.91, 1.98495),
                     ac_angle := 0\<rparr>"
  by (simp add: air_motion_def air_velocity_def Aircraft_init_def radians_def GRAVITY_def
                GROUND_LEVEL_def)

lemma air_motion_crash_example:
  "air_motion (1 / 60)
     (Aircraft_init\<lparr>ac_on_ground := False, ac_has_taken_off := True,
                    ac_position := (100, 499), ac_velocity := (3, 5)\<rparr>)
   = Aircraft_init\<lparr>ac_on_ground := False, ac_has_taken_off := True,
                     ac_position := (102.91, 503.95495), ac_velocity := (2.91, 4.95495),
                     ac_angle := 0\<rparr>"
  by (simp add: air_motion_def air_velocity_def Aircraft_init_def radians_def GRAVITY_def
                GROUND_LEVEL_def)

theorem landing_or_crash_witness:
  "snd (ac_position (air_motion (1 / 60)
     (Aircraft_init\<lparr>ac_on_ground := False, ac_has_taken_off := True,
                    ac_position := (100, 499), ac_velocity := (3, 2)\<rparr>))) \<ge> GROUND_LEVEL
   \<and> ac_on_ground (update_air_physics (1 / 60)
     (Aircraft_init\<lparr>ac_on_ground := False, ac_has_taken_off := True,
                    ac_position := (100, 499), ac_velocity := (3, 2)\<rparr>))
   \<and> snd (ac_position (air_motion (1 / 60)
     (Aircraft_init\<lparr>ac_on_ground := False, ac_has_taken_off := True,
                    ac_position := (100, 499), ac_velocity := (3, 5)\<rparr>))) \<ge> GROUND_LEVEL
   \<and> ac_health (update_air_physics (1 / 60)
     (Aircraft_init\<lparr>ac_on_ground := False, ac_has_taken_off := True,
                    ac_position := (100, 499), ac_velocity := (3, 5)\<rparr>)) = 0"
proof -
  let ?l = "Aircraft_init\<lparr>ac_on_ground := False, ac_has_taken_off := True,
                    ac_position := (100, 499), ac_velocity := (3, 2)\<rparr>"
  let ?c = "Aircraft_init\<lparr>ac_on_ground := False, ac_has_taken_off := True,
                    ac_position := (100, 499), ac_velocity := (3, 5)\<rparr>"
  have hl: "snd (ac_position (air_motion (1 / 60) ?l)) \<ge> GROUND_LEVEL"
    by (simp add: air_motion_landing_example GROUND_LEVEL_def)
  have hc: "snd (ac_position (air_motion (1 / 60) ?c)) \<ge> GROUND_LEVEL"
    by (simp add: air_motion_crash_example GROUND_LEVEL_def)
  have "ac_on_ground (update_air_physics (1 / 60) ?l)"
    using landing_or_crash [OF hl]
    by (simp add: air_motion_landing_example RUNWAY_X_START_def RUNWAY_X_END_def land_def)
  moreover have "ac_health (update_air_physics (1 / 60) ?c) = 0"
    using landing_or_crash [OF hc]
    by (simp add: air_motion_crash_example RUNWAY_X_START_def RUNWAY_X_END_def crash_def)
  ultimately show ?thesis using hl hc by blast
qed

section \<open>Weapon system: the cooldown gates\<close>

text \<open>
  Claim C3. For each of the four channels, the fire or activate operation called with a
  positive cooldown returns False and leaves the weapon system (and, for the shield, the
  aircraft) unchanged: no projectile is added and no resource pool changes. Called with
  cooldown 0 and the channel's resource condition met (a missile in stock, laser charge
  at least 30, shield energy at least 40; none for the primary gun), it returns True and
  sets the cooldown to the channel's constant (0.15, 1.5, 3.0, 8.0).
\<close>

theorem weapon_cooldown_gate:
  assumes "ws_cooldown_times w = cooldown_times_init"
  shows "(0 < ws_cooldowns w primary \<longrightarrow> fire_primary a w = (False, w))
     \<and> (ws_cooldowns w primary = 0 \<longrightarrow>
          fst (fire_primary a w) \<and> ws_cooldowns (snd (fire_primary a w)) primary = 0.15)
     \<and> (0 < ws_cooldowns w missile \<longrightarrow> fire_missile a w = (False, w))
     \<and> (ws_cooldowns w missile = 0 \<and> 1 \<le> ws_missile_count w \<longrightarrow>
          fst (fire_missile a w) \<and> ws_cooldowns (snd (fire_missile a w)) missile = 1.5)
     \<and> (0 < ws_cooldowns w laser \<longrightarrow> fire_laser a w = (False, w))
     \<and> (ws_cooldowns w laser = 0 \<and> 30 \<le> ws_laser_charge w \<longrightarrow>
          fst (fire_laser a w) \<and> ws_cooldowns (snd (fire_laser a w)) laser = 3.0)
     \<and> (0 < ws_cooldowns w shield \<longrightarrow> WeaponSystem_activate_shield a w = (False, w, a))
     \<and> (ws_cooldowns w shield = 0 \<and> 40 \<le> ws_shield_energy w \<longrightarrow>
          fst (WeaponSystem_activate_shield a w)
          \<and> ws_cooldowns (fst (snd (WeaponSystem_activate_shield a w))) shield = 8.0)"
proof (intro conjI impI)
  show "fire_primary a w = (False, w)" if "0 < ws_cooldowns w primary"
    using that by (simp add: fire_primary_def)
  show "fire_missile a w = (False, w)" if "0 < ws_cooldowns w missile"
    using that by (simp add: fire_missile_def)
  show "fire_laser a w = (False, w)" if "0 < ws_cooldowns w laser"
    using that by (simp add: fire_laser_def)
  show "WeaponSystem_activate_shield a w = (False, w, a)" if "0 < ws_cooldowns w shield"
    using that by (simp add: WeaponSystem_activate_shield_def)
next
  assume "ws_cooldowns w primary = 0"
  then show "fst (fire_primary a w)"
    and "ws_cooldowns (snd (fire_primary a w)) primary = 0.15"
    using assms by (simp_all add: fire_primary_def Let_def)
next
  assume "ws_cooldowns w missile = 0 \<and> 1 \<le> ws_missile_count w"
  then show "fst (fire_missile a w)"
    and "ws_cooldowns (snd (fire_missile a w)) missile = 1.5"
    using assms by (simp_all add: fire_missile_def)
next
  assume "ws_cooldowns w laser = 0 \<and> 30 \<le> ws_laser_charge w"
  then show "fst (fire_laser a w)"
    and "ws_cooldowns (snd (fire_laser a w)) laser = 3.0"
    using assms by (simp_all add: fire_laser_def)
next
  assume "ws_cooldowns w shield = 0 \<and> 40 \<le> ws_shield_energy w"
  then show "fst (WeaponSystem_activate_shield a w)"
    and "ws_cooldowns (fst (snd (WeaponSystem_activate_shield a w))) shield = 8.0"
    using assms by (simp_all add: WeaponSystem_activate_shield_def)
qed

theorem weapon_cooldown_gate_witness:
  "ws_cooldown_times WeaponSystem_init = cooldown_times_init
   \<and> fst (fire_primary Aircraft_init WeaponSystem_init)
   \<and> fst (fire_missile Aircraft_init WeaponSystem_init)
   \<and> fst (fire_laser Aircraft_init (WeaponSystem_init\<lparr>ws_laser_charge := 30\<rparr>))
   \<and> fst (WeaponSystem_activate_shield Aircraft_init WeaponSystem_init)
   \<and> \<not> fst (fire_primary Aircraft_init (WeaponSystem_init\<lparr>ws_cooldowns := (\<lambda>k. 0.1)\<rparr>))
   \<and> \<not> fst (fire_missile Aircraft_init (WeaponSystem_init\<lparr>ws_cooldowns := (\<lambda>k. 0.1)\<rparr>))
   \<and> \<not> fst (fire_laser Aircraft_init (WeaponSystem_init\<lparr>ws_cooldowns := (\<lambda>k. 0.1)\<rparr>))
   \<and> \<not> fst (WeaponSystem_activate_shield Aircraft_init
               (WeaponSystem_init\<lparr>ws_cooldowns := (\<lambda>k. 0.1)\<rparr>))"
  using weapon_cooldown_gate [of WeaponSystem_init Aircraft_init]
        weapon_cooldown_gate [of "WeaponSystem_init\<lparr>ws_laser_charge := 30\<rparr>" Aircraft_init]
        weapon_cooldown_gate [of "WeaponSystem_init\<lparr>ws_cooldowns := (\<lambda>k. 0.1)\<rparr>" Aircraft_init]
  by (simp add: WeaponSystem_init_def)

section \<open>Boss: damage during the entry glide\<close>

lemma Boss_update_glide:
  assumes "\<not> bs_entered b"
  shows "\<exists>b'. Boss_update dt pp rnd b = Inr ([], b')
              \<and> bs_phase_transition_timer b' = bs_phase_transition_timer b
              \<and> bs_phase b' = bs_phase b"
  using assms by (simp add: Boss_update_def Let_def)

lemma Boss_update_timer_before_entry:
  assumes "Boss_update dt pp rnd b = Inr (ps, b')"
    and "\<not> bs_entered b \<longrightarrow> bs_phase_transition_timer b = 0"
  shows "\<not> bs_entered b' \<longrightarrow> bs_phase_transition_timer b' = 0"
proof (cases "bs_entered b")
  case True
  then show ?thesis using Boss_update_keeps [OF assms(1)] by simp
next
  case False
  then show ?thesis using assms Boss_update_glide [OF False, of dt pp rnd] by auto
qed

lemma Boss_take_damage_timer_before_entry:
  assumes "\<not> bs_entered b \<longrightarrow> bs_phase_transition_timer b = 0"
  shows "\<not> bs_entered (snd (Boss_take_damage amount b))
           \<longrightarrow> bs_phase_transition_timer (snd (Boss_take_damage amount b)) = 0"
  using assms by (simp add: Boss_take_damage_def Let_def)

lemma boss_run_timer_before_entry:
  "boss_run evs b = Inr b' \<Longrightarrow>
   (\<not> bs_entered b \<longrightarrow> bs_phase_transition_timer b = 0) \<Longrightarrow>
   (\<not> bs_entered b' \<longrightarrow> bs_phase_transition_timer b' = 0)"
proof (induction evs b rule: boss_run.induct)
  case (1 b)
  then show ?case by simp
next
  case (2 dt player_pos rnd evs b)
  from "2.prems"(1) obtain ps b1 where
    u: "Boss_update dt player_pos rnd b = Inr (ps, b1)" and r: "boss_run evs b1 = Inr b'"
    by (auto split: sum.splits)
  have "\<not> bs_entered b1 \<longrightarrow> bs_phase_transition_timer b1 = 0"
    by (rule Boss_update_timer_before_entry [OF u "2.prems"(2)])
  with "2.IH" [OF u refl r] show ?case by simp
next
  case (3 amount evs b)
  then show ?case using Boss_take_damage_timer_before_entry by auto
qed

text \<open>
  Claim C10. \<^verbatim>\<open>Boss.take_damage\<close> rejects a hit exactly when the phase-transition timer
  is positive; otherwise the whole amount is subtracted, and the boss is destroyed when
  the health reaches 0. A new boss has timer 0 and has not entered; an update of a boss
  that has not entered only glides (no projectiles, timer and phase untouched). So after
  any history of updates and hits, a boss that has not yet entered has timer 0 and takes
  the full damage of the next hit, which destroys it when the amount covers its health.
\<close>

theorem boss_vulnerable_during_entry:
  "(Boss_take_damage amount b =
      (if bs_phase_transition_timer b > 0 then (False, b)
       else if bs_health b - amount \<le> 0
       then (True, b\<lparr>bs_health := bs_health b - amount, bs_active := False\<rparr>)
       else (False, b\<lparr>bs_health := bs_health b - amount\<rparr>)))
   \<and> bs_phase_transition_timer (Boss_init position boss_type) = 0
   \<and> \<not> bs_entered (Boss_init position boss_type)
   \<and> (\<not> bs_entered b \<longrightarrow>
        (\<exists>b'. Boss_update dt pp rnd b = Inr ([], b')
              \<and> bs_phase_transition_timer b' = bs_phase_transition_timer b
              \<and> bs_phase b' = bs_phase b))
   \<and> (boss_run evs (Boss_init position boss_type) = Inr b \<and> \<not> bs_entered b \<longrightarrow>
        bs_phase_transition_timer b = 0
        \<and> bs_health (snd (Boss_take_damage amount b)) = bs_health b - amount
        \<and> (bs_health b \<le> amount \<longrightarrow>
             fst (Boss_take_damage amount b) \<and> \<not> bs_active (snd (Boss_take_damage amount b))))"
proof -
  have init: "bs_phase_transition_timer (Boss_init position boss_type) = 0"
    "\<not> bs_entered (Boss_init position boss_type)"
    by (simp_all add: Boss_init_def Let_def split: prod.splits)
  have td: "Boss_take_damage amount b =
      (if bs_phase_transition_timer b > 0 then (False, b)
       else if bs_health b - amount \<le> 0
       then (True, b\<lparr>bs_health := bs_health b - amount, bs_active := False\<rparr>)
       else (False, b\<lparr>bs_health := bs_health b - amount\<rparr>))"
    by (simp add: Boss_take_damage_def Let_def)
  have run: "bs_phase_transition_timer b = 0"
    if "boss_run evs (Boss_init position boss_type) = Inr b" "\<not> bs_entered b"
    using boss_run_timer_before_entry [OF that(1)] init that(2) by simp
  show ?thesis
    using init td run Boss_update_glide [of b dt pp rnd] by auto
qed

theorem boss_vulnerable_during_entry_witness:
  "boss_run [Tick (1 / 60) (100, 300) 0] (Boss_init (900, 300) ''hive_queen'')
     = Inr ((Boss_init (900, 300) ''hive_queen'')
              \<lparr>bs_move_timer := 1 / 60, bs_attack_timer := 1 / 60, bs_position := (897, 300)\<rparr>)
   \<and> \<not> bs_entered ((Boss_init (900, 300) ''hive_queen'')
              \<lparr>bs_move_timer := 1 / 60, bs_attack_timer := 1 / 60, bs_position := (897, 300)\<rparr>)
   \<and> fst (Boss_take_damage 800 ((Boss_init (900, 300) ''hive_queen'')
              \<lparr>bs_move_timer := 1 / 60, bs_attack_timer := 1 / 60, bs_position := (897, 300)\<rparr>))
   \<and> bs_health (snd (Boss_take_damage 800 ((Boss_init (900, 300) ''hive_queen'')
              \<lparr>bs_move_timer := 1 / 60, bs_attack_timer := 1 / 60, bs_position := (897, 300)\<rparr>)))
       = 0"
proof -
  let ?b = "(Boss_init (900, 300) ''hive_queen'')
              \<lparr>bs_move_timer := 1 / 60, bs_attack_timer := 1 / 60, bs_position := (897, 300)\<rparr>"
  have r: "boss_run [Tick (1 / 60) (100, 300) 0] (Boss_init (900, 300) ''hive_queen'') = Inr ?b"
    by (simp add: Boss_update_def Boss_init_def)
  have e: "\<not> bs_entered ?b" by (simp add: Boss_init_def)
  have h: "bs_health ?b = 800" by (simp add: Boss_init_def)
  show ?thesis
    using boss_vulnerable_during_entry
            [of 800 ?b "(900, 300)" "''hive_queen''" "1 / 60" "(100, 300)" 0
                "[Tick (1 / 60) (100, 300) 0]"]
          r e h
    by simp
qed

section \<open>Health and fuel stay within their bounds\<close>

lemma update_invulnerability_pools [simp]:
  "ac_max_health (update_invulnerability dt a) = ac_max_health a"
  "ac_fuel (update_invulnerability dt a) = ac_fuel a"
  "ac_max_fuel (update_invulnerability dt a) = ac_max_fuel a"
  by (simp_all add: update_invulnerability_def Let_def)

lemma update_shield_pools [simp]:
  "ac_max_health (fst (update_shield dt (a, wo))) = ac_max_health a"
  "ac_fuel (fst (update_shield dt (a, wo))) = ac_fuel a"
  "ac_max_fuel (fst (update_shield dt (a, wo))) = ac_max_fuel a"
  by (simp_all add: update_shield_def Let_def)

lemma update_ground_physics_pools [simp]:
  "ac_max_health (update_ground_physics dt a) = ac_max_health a"
  "ac_fuel (update_ground_physics dt a) = ac_fuel a"
  "ac_max_fuel (update_ground_physics dt a) = ac_max_fuel a"
  by (simp_all add: update_ground_physics_def Let_def)

lemma air_motion_pools [simp]:
  "ac_max_health (air_motion dt a) = ac_max_health a"
  "ac_fuel (air_motion dt a) = ac_fuel a"
  "ac_max_fuel (air_motion dt a) = ac_max_fuel a"
  by (simp_all add: air_motion_def Let_def)

lemma check_landing_bounds:
  "aircraft_bounds a \<Longrightarrow> aircraft_bounds (check_landing a)"
  by (simp add: aircraft_bounds_def check_landing_def land_def crash_def)

lemma update_air_physics_bounds:
  "aircraft_bounds a \<Longrightarrow> aircraft_bounds (update_air_physics dt a)"
proof -
  assume "aircraft_bounds a"
  then have "aircraft_bounds (air_motion dt a)" by (simp add: aircraft_bounds_def)
  then show ?thesis
    by (simp add: update_air_physics_def Let_def check_landing_bounds)
qed

lemma update_fuel_bounds:
  assumes "0 \<le> dt" "aircraft_bounds a"
  shows "aircraft_bounds (update_fuel dt a)"
proof (cases "ac_thrust a > 0")
  case False
  with assms show ?thesis by (simp add: update_fuel_def)
next
  case True
  then have "0 \<le> ac_thrust a * 0.005 * dt" using assms(1) by simp
  then show ?thesis
    using assms(2) True by (auto simp: update_fuel_def Let_def aircraft_bounds_def)
qed

lemma Aircraft_update_bounds:
  assumes "0 \<le> dt" "aircraft_bounds a"
  shows "aircraft_bounds (fst (Aircraft_update dt (a, wo)))"
proof -
  define b where "b = fst (update_shield dt (update_invulnerability dt a, wo))"
  have b: "aircraft_bounds b" using assms(2) by (simp add: b_def aircraft_bounds_def)
  have g: "aircraft_bounds (update_ground_physics dt b)"
    using b by (simp add: aircraft_bounds_def)
  have "aircraft_bounds (if ac_on_ground a then update_ground_physics dt b
                         else update_air_physics dt b)"
    using g update_air_physics_bounds [OF b] by simp
  then show ?thesis
    unfolding Aircraft_update_fst b_def [symmetric] by (rule update_fuel_bounds [OF assms(1)])
qed

lemma update_drone_keeps:
  "en_health (snd (update_drone dt pp rnd e)) = en_health e
   \<and> en_max_health (snd (update_drone dt pp rnd e)) = en_max_health e
   \<and> en_active (snd (update_drone dt pp rnd e)) = en_active e"
  by (simp add: update_drone_def Let_def)

lemma update_bomber_keeps:
  "en_health (snd (update_bomber dt pp e)) = en_health e
   \<and> en_max_health (snd (update_bomber dt pp e)) = en_max_health e
   \<and> en_active (snd (update_bomber dt pp e)) = en_active e"
  by (simp add: update_bomber_def Let_def)

lemma update_gunship_keeps:
  "update_gunship dt pp rnd e = Inr (ps, e') \<Longrightarrow>
   en_health e' = en_health e \<and> en_max_health e' = en_max_health e
   \<and> en_active e' = en_active e"
  by (auto simp: update_gunship_def Let_def split: if_splits sum.splits)

lemma update_elite_keeps:
  "en_health (snd (update_elite dt pp rnd e)) = en_health e
   \<and> en_max_health (snd (update_elite dt pp rnd e)) = en_max_health e
   \<and> en_active (snd (update_elite dt pp rnd e)) = en_active e"
  by (simp add: update_elite_def Let_def)

lemma update_kamikaze_keeps:
  "en_health (update_kamikaze dt pp e) = en_health e
   \<and> en_max_health (update_kamikaze dt pp e) = en_max_health e
   \<and> en_active (update_kamikaze dt pp e) = en_active e"
  by (simp add: update_kamikaze_def Let_def)

lemma Enemy_update_keeps:
  assumes "Enemy_update dt pp rnd e = Inr (ps, e')"
  shows "en_health e' = en_health e \<and> en_max_health e' = en_max_health e
         \<and> (en_active e' \<longrightarrow> en_active e)"
proof (cases "en_active e")
  case False
  with assms show ?thesis by (simp add: Enemy_update_def)
next
  case True
  define e1 where "e1 = e\<lparr>en_move_timer := en_move_timer e + dt,
                   en_attack_cooldown := max 0 (en_attack_cooldown e - dt)\<rparr>"
  define e2 where "e2 = (if en_state e1 = ''spawn'' then e1\<lparr>en_state := ''move''\<rparr> else e1)"
  define r where "r = (if en_type e2 = ''drone'' then Inr (update_drone dt pp rnd e2)
                 else if en_type e2 = ''bomber'' then Inr (update_bomber dt pp e2)
                 else if en_type e2 = ''gunship'' then update_gunship dt pp rnd e2
                 else if en_type e2 = ''elite'' then Inr (update_elite dt pp rnd e2)
                 else if en_type e2 = ''kamikaze'' then Inr ([], update_kamikaze dt pp e2)
                 else Inr ([], e2))"
  have e2: "en_health e2 = en_health e" "en_max_health e2 = en_max_health e"
    "en_active e2 = en_active e"
    by (simp_all add: e2_def e1_def)
  have u: "Enemy_update dt pp rnd e =
      (case r of
             Inl err \<Rightarrow> Inl err
           | Inr (projectiles, e3) \<Rightarrow>
               Inr (projectiles,
                    if fst (en_position e3) < - 100 then e3\<lparr>en_active := False\<rparr> else e3))"
    using True unfolding Enemy_update_def r_def e2_def e1_def Let_def by simp
  from assms u obtain e3 where
    r: "r = Inr (ps, e3)"
    and e': "e' = (if fst (en_position e3) < - 100 then e3\<lparr>en_active := False\<rparr> else e3)"
    by (auto split: sum.splits)
  have "en_health e3 = en_health e2 \<and> en_max_health e3 = en_max_health e2
         \<and> en_active e3 = en_active e2"
    using r update_drone_keeps [of dt pp rnd e2] update_bomber_keeps [of dt pp e2]
          update_gunship_keeps [of dt pp rnd e2 ps e3] update_elite_keeps [of dt pp rnd e2]
          update_kamikaze_keeps [of dt pp e2]
    unfolding r_def by (auto split: if_splits)
  with e' e2 show ?thesis by simp
qed


lemma Aircraft_init_bounds: "aircraft_bounds Aircraft_init"
  by (simp add: aircraft_bounds_def Aircraft_init_def)

lemma Enemy_init_bounds: "enemy_bounds (Enemy_init position enemy_type)"
  by (simp add: enemy_bounds_def Enemy_init_def get_stats_def)

lemma Boss_init_bounds: "boss_bounds (Boss_init position boss_type)"
proof -
  consider "boss_type = ''hive_queen''"
    | "boss_type \<noteq> ''hive_queen''" "boss_type = ''aegis_defender''"
    | "boss_type \<noteq> ''hive_queen''" "boss_type \<noteq> ''aegis_defender''"
    by blast
  then show ?thesis
    by cases (simp_all add: boss_bounds_def Boss_init_def)
qed

lemma Enemy_take_damage_bounds:
  "0 \<le> amount \<Longrightarrow> enemy_bounds e \<Longrightarrow> enemy_bounds (snd (Enemy_take_damage amount e))"
  by (simp add: enemy_bounds_def Enemy_take_damage_def Let_def)

lemma Boss_take_damage_bounds:
  "0 \<le> amount \<Longrightarrow> boss_bounds b \<Longrightarrow> boss_bounds (snd (Boss_take_damage amount b))"
  by (simp add: boss_bounds_def Boss_take_damage_def Let_def)

lemma aircraft_operations_bounds:
  assumes "0 \<le> amount" "aircraft_bounds a"
  shows "aircraft_bounds (snd (Aircraft_take_damage amount a))"
    and "aircraft_bounds (heal amount a)"
    and "aircraft_bounds (add_fuel amount a)"
    and "aircraft_bounds (lose_life a)"
    and "aircraft_bounds (land a)"
    and "aircraft_bounds (crash a)"
    and "aircraft_bounds (fst (take_shield_hit amount (a, wo)))"
    and "aircraft_bounds (Aircraft_activate_shield duration a)"
    and "aircraft_bounds (add_score points a)"
  using assms
  by (simp_all add: aircraft_bounds_def Aircraft_take_damage_def heal_def add_fuel_def
        lose_life_def land_def crash_def take_shield_hit_def Aircraft_activate_shield_def
        add_score_def Let_def split: option.splits)

text \<open>
  Claim C6, as amended. For a tick length and amounts that are not negative, every
  operation of the aircraft keeps \<open>0 \<le> health \<le> max_health\<close> and
  \<open>0 \<le> fuel \<le> max_fuel\<close>, and a new aircraft satisfies them. For enemies and bosses
  the upper bound \<open>health \<le> max_health\<close> is kept by \<^verbatim>\<open>take_damage\<close> and \<^verbatim>\<open>update\<close>,
  and the health is positive as long as the object is active; \<^verbatim>\<open>take_damage\<close> does not
  floor the health at 0, so the hit that destroys an enemy or boss can leave it negative.
\<close>

theorem health_and_fuel_bounds:
  assumes "0 \<le> dt" and "0 \<le> amount"
  shows "aircraft_bounds Aircraft_init
     \<and> (aircraft_bounds a \<longrightarrow>
          aircraft_bounds (fst (Aircraft_update dt (a, wo)))
          \<and> aircraft_bounds (snd (Aircraft_take_damage amount a))
          \<and> aircraft_bounds (heal amount a)
          \<and> aircraft_bounds (add_fuel amount a)
          \<and> aircraft_bounds (lose_life a)
          \<and> aircraft_bounds (land a)
          \<and> aircraft_bounds (crash a)
          \<and> aircraft_bounds (fst (take_shield_hit amount (a, wo)))
          \<and> aircraft_bounds (Aircraft_activate_shield duration a)
          \<and> aircraft_bounds (add_score points a))
     \<and> enemy_bounds (Enemy_init position enemy_type)
     \<and> (enemy_bounds e \<longrightarrow>
          enemy_bounds (snd (Enemy_take_damage amount e))
          \<and> (\<forall>ps e'. Enemy_update dt pp rnd e = Inr (ps, e') \<longrightarrow> enemy_bounds e'))
     \<and> boss_bounds (Boss_init position boss_type)
     \<and> (boss_bounds b \<longrightarrow>
          boss_bounds (snd (Boss_take_damage amount b))
          \<and> (\<forall>ps b'. Boss_update dt pp rnd b = Inr (ps, b') \<longrightarrow> boss_bounds b'))"
proof -
  have e: "enemy_bounds e'" if "enemy_bounds e" "Enemy_update dt pp rnd e = Inr (ps, e')"
    for ps e'
    using that(1) Enemy_update_keeps [OF that(2)] by (auto simp: enemy_bounds_def)
  have b: "boss_bounds b'" if "boss_bounds b" "Boss_update dt pp rnd b = Inr (ps, b')"
    for ps b'
    using that(1) Boss_update_keeps [OF that(2)] by (auto simp: boss_bounds_def)
  show ?thesis
  proof (intro conjI impI allI)
    show "aircraft_bounds Aircraft_init" by (rule Aircraft_init_bounds)
    show "enemy_bounds (Enemy_init position enemy_type)" by (rule Enemy_init_bounds)
    show "boss_bounds (Boss_init position boss_type)" by (rule Boss_init_bounds)
  next
    assume a: "aircraft_bounds a"
    show "aircraft_bounds (fst (Aircraft_update dt (a, wo)))"
      by (rule Aircraft_update_bounds [OF assms(1) a])
    show "aircraft_bounds (snd (Aircraft_take_damage amount a))"
      and "aircraft_bounds (heal amount a)"
      and "aircraft_bounds (add_fuel amount a)"
      and "aircraft_bounds (lose_life a)"
      and "aircraft_bounds (land a)"
      and "aircraft_bounds (crash a)"
      and "aircraft_bounds (fst (take_shield_hit amount (a, wo)))"
      and "aircraft_bounds (Aircraft_activate_shield duration a)"
      and "aircraft_bounds (add_score points a)"
      by (rule aircraft_operations_bounds [OF assms(2) a])+
  next
    assume "enemy_bounds e"
    then show "enemy_bounds (snd (Enemy_take_damage amount e))"
      by (rule Enemy_take_damage_bounds [OF assms(2)])
  next
    fix ps e' assume "enemy_bounds e" "Enemy_update dt pp rnd e = Inr (ps, e')"
    then show "enemy_bounds e'" by (rule e)
  next
    assume "boss_bounds b"
    then show "boss_bounds (snd (Boss_take_damage amount b))"
      by (rule Boss_take_damage_bounds [OF assms(2)])
  next
    fix ps b' assume "boss_bounds b" "Boss_update dt pp rnd b = Inr (ps, b')"
    then show "boss_bounds b'" by (rule b)
  qed
qed

theorem health_and_fuel_bounds_witness:
  "(0::real) \<le> 1 / 60 \<and> (0::real) \<le> 15
   \<and> aircraft_bounds Aircraft_init
   \<and> aircraft_bounds (fst (Aircraft_update (1 / 60) (Aircraft_init, None)))
   \<and> aircraft_bounds (snd (Aircraft_take_damage 15 Aircraft_init))
   \<and> enemy_bounds (Enemy_init (850, 150) ''drone'')
   \<and> enemy_bounds (snd (Enemy_take_damage 15 (Enemy_init (850, 150) ''drone'')))
   \<and> boss_bounds (Boss_init (850, 150) ''hive_queen'')
   \<and> boss_bounds (snd (Boss_take_damage 15 (Boss_init (850, 150) ''hive_queen'')))"
proof -
  have h0: "(0::real) \<le> 1 / 60" and h1: "(0::real) \<le> 15" by simp_all
  note w = health_and_fuel_bounds
             [OF h0 h1, where a = Aircraft_init and wo = None and duration = 5 and points = 0
                and position = "(850, 150)" and enemy_type = "''drone''"
                and e = "Enemy_init (850, 150) ''drone''" and pp = "(100, 300)" and rnd = 0
                and boss_type = "''hive_queen''"
                and b = "Boss_init (850, 150) ''hive_queen''"]
  note i = w [THEN conjunct1]
  note ac = w [THEN conjunct2, THEN conjunct1, THEN mp, OF i]
  note ei = w [THEN conjunct2, THEN conjunct2, THEN conjunct1]
  note en = w [THEN conjunct2, THEN conjunct2, THEN conjunct2, THEN conjunct1, THEN mp, OF ei]
  note bi = w [THEN conjunct2, THEN conjunct2, THEN conjunct2, THEN conjunct2, THEN conjunct1]
  note bo = w [THEN conjunct2, THEN conjunct2, THEN conjunct2, THEN conjunct2, THEN conjunct2,
               THEN mp, OF bi]
  show ?thesis
    using h0 h1 i ac [THEN conjunct1] ac [THEN conjunct2, THEN conjunct1] ei
      en [THEN conjunct1] bi bo [THEN conjunct1]
    by (intro conjI)
qed

text \<open>
  The claim as first stated fails for enemies: a missile (damage 40) on a new drone
  (health 30) leaves the health at \<open>-10\<close>.
\<close>

theorem enemy_health_negative_counterexample:
  "\<not> (0 \<le> en_health (snd (Enemy_take_damage 40 (Enemy_init (850, 150) ''drone'')))
      \<and> en_health (snd (Enemy_take_damage 40 (Enemy_init (850, 150) ''drone'')))
          \<le> en_max_health (snd (Enemy_take_damage 40 (Enemy_init (850, 150) ''drone''))))"
  by (simp add: Enemy_take_damage_def Enemy_init_def get_stats_def)

section \<open>Shield energy: drain and regeneration\<close>


lemma update_invulnerability_shield [simp]:
  "ac_shield_active (update_invulnerability dt a) = ac_shield_active a"
  "ac_shield_duration (update_invulnerability dt a) = ac_shield_duration a"
  by (simp_all add: update_invulnerability_def Let_def)

lemma physics_keep_shield [simp]:
  "ac_shield_active (update_ground_physics dt a) = ac_shield_active a"
  "ac_shield_active (update_air_physics dt a) = ac_shield_active a"
  "ac_shield_active (update_fuel dt a) = ac_shield_active a"
  by (simp_all add: update_ground_physics_def update_air_physics_def air_motion_def
        check_landing_def land_def crash_def update_fuel_def Let_def)

lemma Aircraft_update_snd:
  "snd (Aircraft_update dt (a, wo)) = snd (update_shield dt (update_invulnerability dt a, wo))"
  by (simp add: Aircraft_update_def split: prod.splits)

lemma Aircraft_update_shield_active:
  "ac_shield_active (fst (Aircraft_update dt (a, wo)))
     = ac_shield_active (fst (update_shield dt (update_invulnerability dt a, wo)))"
  by (simp add: Aircraft_update_fst)

lemma WeaponSystem_update_shield_energy:
  "ws_shield_energy (WeaponSystem_update dt objs w) =
        (if ws_shield_energy w < ws_max_shield_energy w
         then min (ws_max_shield_energy w) (ws_shield_energy w + 3 * dt)
         else ws_shield_energy w)"
proof -
  have c: "ws_shield_energy (update_laser_charge dt (update_cooldowns dt w)) = ws_shield_energy w"
    "ws_max_shield_energy (update_laser_charge dt (update_cooldowns dt w)) = ws_max_shield_energy w"
    by (simp_all add: update_laser_charge_def update_cooldowns_def Let_def)
  show ?thesis
    by (simp add: WeaponSystem_update_def update_projectiles_def regenerate_shield_def c)
qed

lemma drain_energy: "ws_shield_energy (drain amount w) = max 0 (ws_shield_energy w - amount)"
  by (simp add: drain_def Let_def)

text \<open>
  Claim C9, as amended. While the shield is active, each \<^verbatim>\<open>Aircraft.update\<close> takes
  \<open>3 * dt\<close> from the linked shield energy (floored at 0) and switches the shield off
  when the duration has run out or the energy is 0; an update of an aircraft whose shield
  is off leaves the pool alone. Each \<^verbatim>\<open>WeaponSystem.update\<close> adds \<open>3 * dt\<close> to a pool
  below its cap, up to the cap, whether or not the shield is active.
\<close>

theorem shield_drain_and_regeneration:
  "(ac_shield_active a \<longrightarrow>
      snd (Aircraft_update dt (a, Some w)) = Some (drain (3 * dt) w)
      \<and> ws_shield_energy (drain (3 * dt) w) = max 0 (ws_shield_energy w - 3 * dt)
      \<and> (ac_shield_active (fst (Aircraft_update dt (a, Some w))) \<longleftrightarrow>
           \<not> (ac_shield_duration a - dt \<le> 0 \<or> max 0 (ws_shield_energy w - 3 * dt) \<le> 0)))
   \<and> (\<not> ac_shield_active a \<longrightarrow>
        snd (Aircraft_update dt (a, wo)) = wo
        \<and> \<not> ac_shield_active (fst (Aircraft_update dt (a, wo))))
   \<and> ws_shield_energy (WeaponSystem_update dt objs w) =
        (if ws_shield_energy w < ws_max_shield_energy w
         then min (ws_max_shield_energy w) (ws_shield_energy w + 3 * dt)
         else ws_shield_energy w)"
proof (intro conjI impI)
  assume s: "ac_shield_active a"
  show "snd (Aircraft_update dt (a, Some w)) = Some (drain (3 * dt) w)"
    using s by (simp add: Aircraft_update_snd update_shield_def Let_def)
  show "ws_shield_energy (drain (3 * dt) w) = max 0 (ws_shield_energy w - 3 * dt)"
    by (rule drain_energy)
  show "ac_shield_active (fst (Aircraft_update dt (a, Some w))) \<longleftrightarrow>
           \<not> (ac_shield_duration a - dt \<le> 0 \<or> max 0 (ws_shield_energy w - 3 * dt) \<le> 0)"
    using s by (simp add: Aircraft_update_shield_active update_shield_def Let_def drain_energy)
next
  assume s: "\<not> ac_shield_active a"
  show "snd (Aircraft_update dt (a, wo)) = wo"
    using s by (simp add: Aircraft_update_snd update_shield_def)
  show "\<not> ac_shield_active (fst (Aircraft_update dt (a, wo)))"
    using s by (simp add: Aircraft_update_shield_active update_shield_def)
next
  show "ws_shield_energy (WeaponSystem_update dt objs w) =
        (if ws_shield_energy w < ws_max_shield_energy w
         then min (ws_max_shield_energy w) (ws_shield_energy w + 3 * dt)
         else ws_shield_energy w)"
    by (rule WeaponSystem_update_shield_energy)
qed

theorem shield_drain_and_regeneration_witness:
  "ac_shield_active (Aircraft_init\<lparr>ac_shield_active := True, ac_shield_duration := 5\<rparr>)
   \<and> snd (Aircraft_update (1 / 10)
            (Aircraft_init\<lparr>ac_shield_active := True, ac_shield_duration := 5\<rparr>,
             Some WeaponSystem_init))
       = Some (drain (3 * (1 / 10)) WeaponSystem_init)
   \<and> ws_shield_energy (drain (3 * (1 / 10)) WeaponSystem_init) = 49.7
   \<and> ac_shield_active (fst (Aircraft_update (1 / 10)
            (Aircraft_init\<lparr>ac_shield_active := True, ac_shield_duration := 5\<rparr>,
             Some WeaponSystem_init)))
   \<and> \<not> ac_shield_active Aircraft_init
   \<and> snd (Aircraft_update (1 / 10) (Aircraft_init, Some WeaponSystem_init))
       = Some WeaponSystem_init"
  using shield_drain_and_regeneration
          [of "Aircraft_init\<lparr>ac_shield_active := True, ac_shield_duration := 5\<rparr>"
              "1 / 10" WeaponSystem_init]
        shield_drain_and_regeneration [of Aircraft_init "1 / 10" _ "Some WeaponSystem_init"]
  by (simp add: Aircraft_init_def WeaponSystem_init_def)

text \<open>
  Regeneration is not limited to the time the shield is off: with the shield active and
  50 units of energy, the aircraft's update drains the pool to 49.7, the shield stays
  active, and the weapon system's update of the same tick brings the pool back to 50.
\<close>

theorem shield_regenerates_while_draining_counterexample:
  "ac_shield_active (Aircraft_init\<lparr>ac_shield_active := True, ac_shield_duration := 5\<rparr>)
   \<and> snd (Aircraft_update (1 / 10)
            (Aircraft_init\<lparr>ac_shield_active := True, ac_shield_duration := 5\<rparr>,
             Some WeaponSystem_init))
       = Some (drain (3 / 10) WeaponSystem_init)
   \<and> ac_shield_active (fst (Aircraft_update (1 / 10)
            (Aircraft_init\<lparr>ac_shield_active := True, ac_shield_duration := 5\<rparr>,
             Some WeaponSystem_init)))
   \<and> ws_shield_energy (drain (3 / 10) WeaponSystem_init) = 49.7
   \<and> ws_shield_energy (WeaponSystem_update (1 / 10) (em_store EnemyManager_init)
         (drain (3 / 10) WeaponSystem_init)) = 50"
  by (simp add: Aircraft_update_snd Aircraft_update_shield_active update_shield_def
        drain_def WeaponSystem_update_shield_energy Aircraft_init_def WeaponSystem_init_def
        Let_def)

section \<open>Level progression after the last wave\<close>

lemma set_spawn_queue_boss_defeated [simp]:
  "em_boss_defeated (set_spawn_queue q em) = em_boss_defeated em"
  by (simp add: set_spawn_queue_def)

lemma spawn_boss_boss_defeated [simp]:
  "em_boss_defeated (spawn_boss t em) = em_boss_defeated em"
  by (simp add: spawn_boss_def)

lemma start_wave_boss_defeated [simp]:
  "em_boss_defeated (start_wave d n em) = em_boss_defeated em"
  by (simp add: start_wave_def Let_def)

lemma spawn_from_queue_boss_defeated [simp]:
  "em_boss_defeated (spawn_from_queue dt em) = em_boss_defeated em"
  by (simp add: spawn_from_queue_def Let_def split: list.splits prod.splits)

lemma update_enemies_boss_defeated:
  "update_enemies dt pp rnd is em = Inr em' \<Longrightarrow> em_boss_defeated em' = em_boss_defeated em"
proof (induction "is" arbitrary: em)
  case Nil
  then show ?case by simp
next
  case (Cons i rest)
  from Cons.prems obtain ps e where
    "update_enemies dt pp rnd rest
            (em\<lparr>em_enemy_objs := (em_enemy_objs em)(i := e),
                em_projectiles := em_projectiles em @ ps,
                em_enemies := (if \<not> en_active e then remove1 i (em_enemies em)
                               else em_enemies em)\<rparr>) = Inr em'"
    by (auto split: sum.splits)
  from Cons.IH [OF this] show ?case by simp
qed

lemma update_boss_boss_defeated:
  "update_boss dt pp rnd em = Inr em' \<Longrightarrow> em_boss_defeated em' = em_boss_defeated em"
  by (auto simp: update_boss_def split: option.splits sum.splits)

lemma EnemyManager_update_boss_defeated:
  assumes "EnemyManager_update dt pp rnd ms em = Inr (em', ms')"
  shows "em_boss_defeated em' = em_boss_defeated em"
proof -
  from assms obtain em2 em3 where
    a: "update_enemies dt pp rnd (em_enemies (spawn_from_queue dt em)) (spawn_from_queue dt em) = Inr em2"
    and b: "update_boss dt pp rnd em2 = Inr em3"
    and c: "em' = em3\<lparr>em_projectiles :=
                        filter ep_active (map (EnemyProjectile_update dt) (em_projectiles em3))\<rparr>"
    by (auto simp: EnemyManager_update_def Let_def split: sum.splits)
  from update_enemies_boss_defeated [OF a] update_boss_boss_defeated [OF b] c
  show ?thesis by simp
qed

lemma LevelManager_update_never_completes:
  assumes "em_boss_defeated em = None"
  shows "lm_level_complete (fst (LevelManager_update dt a (lm, em))) = lm_level_complete lm
         \<and> em_boss_defeated (snd (LevelManager_update dt a (lm, em))) = None"
  using assms by (simp add: LevelManager_update_def Let_def)

lemma boss_spawned_eq:
  "boss_spawned = EnemyManager_init\<lparr>em_boss_objs := (em_boss_objs EnemyManager_init)
                      (0 := Boss_init (900, 300) ''hive_queen''),
                    em_boss := Some 0, em_next := 1\<rparr>"
  by (simp add: boss_spawned_def boss_stage_def LevelManager_update_def waves_done_def airborne_def
        LevelManager_init_def get_level_data_def level_1_data_def EnemyManager_init_def
        spawn_boss_def Let_def)


lemma boss_destroyed_eq:
  "boss_destroyed = EnemyManager_init\<lparr>em_boss_objs := (em_boss_objs EnemyManager_init)
                      (0 := (Boss_init (900, 300) ''hive_queen'')\<lparr>bs_health := 0, bs_active := False\<rparr>),
                    em_boss := Some 0, em_next := 1\<rparr>"
  by (simp add: boss_destroyed_def boss_spawned_eq Boss_take_damage_def Boss_init_def
        EnemyManager_init_def)

lemma boss_removed_update:
  "EnemyManager_update (1 / 60) (100, 300) no_draw [] boss_destroyed = Inr (boss_removed, [])"
  by (simp add: boss_removed_def boss_destroyed_eq EnemyManager_update_def spawn_from_queue_def
        update_boss_def update_missiles_def Boss_update_def EnemyManager_init_def Boss_init_def
        Let_def)

text \<open>
  Claim C7 at the end of level 1. The first update after the last wave spawns the boss
  (object 0). Once a hit has destroyed it and the enemy manager has dropped it, the
  manager has no boss and still no \<^verbatim>\<open>boss_defeated\<close> attribute, so the next
  \<^verbatim>\<open>LevelManager.update\<close> takes the spawning branch again: a second, active boss
  (object 1) appears and \<open>level_complete\<close> stays False. By the two lemmas above this
  repeats for ever: while the attribute is absent no update sets \<open>level_complete\<close>, and
  no update creates the attribute.
\<close>

theorem boss_respawns_level_never_completes:
  "em_boss boss_spawned = Some 0
   \<and> bs_active (em_boss_objs boss_spawned 0)
   \<and> fst (Boss_take_damage 800 (em_boss_objs boss_spawned 0))
   \<and> \<not> bs_active (em_boss_objs boss_destroyed 0)
   \<and> EnemyManager_update (1 / 60) (100, 300) no_draw [] boss_destroyed = Inr (boss_removed, [])
   \<and> em_boss boss_removed = None
   \<and> em_boss_defeated boss_removed = None
   \<and> em_boss (snd (LevelManager_update (1 / 60) airborne (fst boss_stage, boss_removed))) = Some 1
   \<and> bs_active (em_boss_objs
         (snd (LevelManager_update (1 / 60) airborne (fst boss_stage, boss_removed))) 1)
   \<and> \<not> lm_level_complete
         (fst (LevelManager_update (1 / 60) airborne (fst boss_stage, boss_removed)))"
proof -
  have st: "fst boss_stage = waves_done\<lparr>lm_scroll_x := 1\<rparr>"
    by (simp add: boss_stage_def LevelManager_update_def waves_done_def airborne_def
        LevelManager_init_def get_level_data_def level_1_data_def EnemyManager_init_def Let_def)
  have r: "boss_removed = EnemyManager_init\<lparr>em_boss_objs := (em_boss_objs EnemyManager_init)
                      (0 := (Boss_init (900, 300) ''hive_queen'')\<lparr>bs_health := 0, bs_active := False\<rparr>),
                    em_next := 1, em_spawn_timer := 1 / 60\<rparr>"
    by (simp add: boss_removed_def boss_destroyed_eq EnemyManager_init_def)
  have again: "LevelManager_update (1 / 60) airborne (fst boss_stage, boss_removed) =
      (waves_done\<lparr>lm_scroll_x := 2\<rparr>, spawn_boss ''hive_queen'' boss_removed)"
    unfolding st
    by (simp add: r LevelManager_update_def waves_done_def airborne_def
        LevelManager_init_def get_level_data_def level_1_data_def EnemyManager_init_def Let_def)
  show ?thesis
    unfolding again
    by (simp add: boss_removed_update)
       (simp add: boss_spawned_eq boss_destroyed_eq r spawn_boss_def Boss_take_damage_def
          Boss_init_def EnemyManager_init_def waves_done_def LevelManager_init_def)
qed

section \<open>Homing missiles\<close>

lemma norm_down_shift: "\<exists>k::int. norm_down d = d - 360 * of_int k"
proof (induction d rule: norm_down.induct)
  case (1 d)
  show ?case
  proof (cases "d > 180")
    case True
    from "1.IH" [OF True] obtain k :: int where "norm_down (d - 360) = d - 360 - 360 * of_int k"
      by blast
    then have "norm_down d = d - 360 * of_int (k + 1)"
      using True by (subst norm_down.simps) (simp add: algebra_simps)
    then show ?thesis by blast
  next
    case False
    then have "norm_down d = d - 360 * of_int (0::int)"
      by (subst norm_down.simps) simp
    then show ?thesis by blast
  qed
qed

lemma norm_up_shift: "\<exists>k::int. norm_up d = d - 360 * of_int k"
proof (induction d rule: norm_up.induct)
  case (1 d)
  show ?case
  proof (cases "d < - 180")
    case True
    from "1.IH" [OF True] obtain k :: int where "norm_up (d + 360) = d + 360 - 360 * of_int k"
      by blast
    then have "norm_up d = d - 360 * of_int (k - 1)"
      using True by (subst norm_up.simps) (simp add: algebra_simps)
    then show ?thesis by blast
  next
    case False
    then have "norm_up d = d - 360 * of_int (0::int)"
      by (subst norm_up.simps) simp
    then show ?thesis by blast
  qed
qed

lemma norm_shift: "\<exists>k::int. norm_up (norm_down d) = d - 360 * of_int k"
proof -
  obtain j :: int where j: "norm_down d = d - 360 * of_int j" using norm_down_shift by blast
  obtain i :: int where i: "norm_up (norm_down d) = norm_down d - 360 * of_int i"
    using norm_up_shift by blast
  have "norm_up (norm_down d) = d - 360 * (of_int j + of_int i)"
    using i j by argo
  then have "norm_up (norm_down d) = d - 360 * of_int (j + i)"
    by (simp only: of_int_add)
  then show ?thesis by blast
qed

lemma norm_down_range: "norm_down d \<le> 180 \<and> (- 180 \<le> d \<longrightarrow> - 180 \<le> norm_down d)"
proof (induction d rule: norm_down.induct)
  case (1 d)
  show ?case
  proof (cases "d > 180")
    case True
    from "1.IH" [OF True] have "norm_down (d - 360) \<le> 180"
      and "- 180 \<le> d - 360 \<longrightarrow> - 180 \<le> norm_down (d - 360)" by simp_all
    moreover have "norm_down d = norm_down (d - 360)"
      using True by (subst norm_down.simps) simp
    moreover have "d - 360 \<le> 180 \<Longrightarrow> norm_down (d - 360) = d - 360"
      by (subst norm_down.simps) simp
    ultimately show ?thesis using True by (cases "d - 360 \<le> 180") auto
  next
    case False
    then have "norm_down d = d" by (subst norm_down.simps) simp
    with False show ?thesis by simp
  qed
qed

lemma norm_up_range: "- 180 \<le> norm_up d \<and> (d \<le> 180 \<longrightarrow> norm_up d \<le> 180)"
proof (induction d rule: norm_up.induct)
  case (1 d)
  show ?case
  proof (cases "d < - 180")
    case True
    from "1.IH" [OF True] have "- 180 \<le> norm_up (d + 360)"
      and "d + 360 \<le> 180 \<longrightarrow> norm_up (d + 360) \<le> 180" by simp_all
    moreover have "norm_up d = norm_up (d + 360)"
      using True by (subst norm_up.simps) simp
    ultimately show ?thesis using True by auto
  next
    case False
    then have "norm_up d = d" by (subst norm_up.simps) simp
    with False show ?thesis by simp
  qed
qed

lemma norm_range: "- 180 \<le> norm_up (norm_down d) \<and> norm_up (norm_down d) \<le> 180"
  using norm_down_range [of d] norm_up_range [of "norm_down d"] by simp


lemma find_nearest_loop_Cons:
  "find_nearest_loop objs pos (e # es) (n, d) =
     (if ref_active objs e then
        (if (case d of None \<Rightarrow> True | Some m \<Rightarrow> dist_to objs pos e < m)
         then find_nearest_loop objs pos es (Some e, Some (dist_to objs pos e))
         else find_nearest_loop objs pos es (n, d))
      else find_nearest_loop objs pos es (n, d))"
  by (simp add: dist_to_def Let_def cong: option.case_cong)

lemma find_nearest_loop_spec:
  assumes "find_nearest_loop objs pos es (n, d) = (n', d')"
    and "(n = None \<and> d = None) \<or> (\<exists>r. n = Some r \<and> d = Some (dist_to objs pos r) \<and> ref_active objs r)"
  shows "(n' = None \<and> n = None \<and> (\<forall>e\<in>set es. \<not> ref_active objs e))
       \<or> (\<exists>r. n' = Some r \<and> d' = Some (dist_to objs pos r) \<and> ref_active objs r
              \<and> (r \<in> set es \<or> n = Some r)
              \<and> (\<forall>e\<in>set es. ref_active objs e \<longrightarrow> dist_to objs pos r \<le> dist_to objs pos e)
              \<and> (\<forall>r0. n = Some r0 \<longrightarrow> dist_to objs pos r \<le> dist_to objs pos r0))"
  using assms
proof (induction es arbitrary: n d)
  case Nil
  then show ?case by auto
next
  case (Cons e es)
  show ?case
  proof (cases "ref_active objs e")
    case False
    with Cons.prems(1) have "find_nearest_loop objs pos es (n, d) = (n', d')"
      by (simp only: find_nearest_loop_Cons if_False)
    from Cons.IH [OF this Cons.prems(2)] False show ?thesis by auto
  next
    case act: True
    show ?thesis
    proof (cases "case d of None \<Rightarrow> True | Some m \<Rightarrow> dist_to objs pos e < m")
      case True
      with Cons.prems(1) act
      have l: "find_nearest_loop objs pos es (Some e, Some (dist_to objs pos e)) = (n', d')"
        by (simp only: find_nearest_loop_Cons if_True)
      have "(Some e = None \<and> Some (dist_to objs pos e) = None)
            \<or> (\<exists>r. Some e = Some r \<and> Some (dist_to objs pos e) = Some (dist_to objs pos r)
                    \<and> ref_active objs r)"
        using act by simp
      from Cons.IH [OF l this] obtain r where
        r: "n' = Some r" "d' = Some (dist_to objs pos r)" "ref_active objs r"
           "r \<in> set es \<or> e = r"
           "\<forall>x\<in>set es. ref_active objs x \<longrightarrow> dist_to objs pos r \<le> dist_to objs pos x"
           "dist_to objs pos r \<le> dist_to objs pos e"
        by auto
      have "\<forall>r0. n = Some r0 \<longrightarrow> dist_to objs pos r \<le> dist_to objs pos r0"
        using Cons.prems(2) True r(6) by auto
      with r show ?thesis by auto
    next
      case False
      then obtain m where m: "d = Some m" "\<not> dist_to objs pos e < m"
        by (cases d) auto
      with Cons.prems(2) obtain r0 where
        r0: "n = Some r0" "m = dist_to objs pos r0" "ref_active objs r0" by auto
      from Cons.prems(1) act False
      have l: "find_nearest_loop objs pos es (n, d) = (n', d')"
        by (simp only: find_nearest_loop_Cons if_True if_False)
      from Cons.IH [OF l Cons.prems(2)] r0 obtain r where
        r: "n' = Some r" "d' = Some (dist_to objs pos r)" "ref_active objs r"
           "r \<in> set es \<or> n = Some r"
           "\<forall>x\<in>set es. ref_active objs x \<longrightarrow> dist_to objs pos r \<le> dist_to objs pos x"
           "dist_to objs pos r \<le> dist_to objs pos r0"
        by auto
      have "dist_to objs pos r \<le> dist_to objs pos e" using r(6) m r0 by simp
      with r r0 show ?thesis by auto
    qed
  qed
qed

lemma find_nearest_enemy_spec:
  "(find_nearest_enemy objs es m = None \<longleftrightarrow> (\<forall>e\<in>set es. \<not> ref_active objs e))
   \<and> (\<forall>r. find_nearest_enemy objs es m = Some r \<longrightarrow>
          r \<in> set es \<and> ref_active objs r
          \<and> (\<forall>e\<in>set es. ref_active objs e \<longrightarrow>
                 dist_to objs (hm_position m) r \<le> dist_to objs (hm_position m) e))"
proof -
  obtain n' d' where l: "find_nearest_loop objs (hm_position m) es (None, None) = (n', d')"
    by (cases "find_nearest_loop objs (hm_position m) es (None, None)")
  have n: "find_nearest_enemy objs es m = n'" by (simp add: find_nearest_enemy_def l)
  from find_nearest_loop_spec [OF l] show ?thesis unfolding n by auto
qed


lemma steer_keeps [simp]:
  "hm_target (steer objs m) = hm_target m"
  "hm_position (steer objs m) = hm_position m"
  "hm_turn_rate (steer objs m) = hm_turn_rate m"
  by (simp_all add: steer_def Let_def split: option.splits)

lemma acquire_keeps [simp]:
  "hm_angle (acquire objs enemies m) = hm_angle m"
  "hm_position (acquire objs enemies m) = hm_position m"
  "hm_turn_rate (acquire objs enemies m) = hm_turn_rate m"
  by (simp_all add: acquire_def split: option.splits)

lemma acquire_target:
  "hm_target (acquire objs enemies m) =
     (case hm_target m of
        None \<Rightarrow> find_nearest_enemy objs enemies m
      | Some t \<Rightarrow> if ref_active objs t then Some t else find_nearest_enemy objs enemies m)"
  by (simp add: acquire_def split: option.splits)

lemma steer_angle:
  "hm_angle (steer objs m) =
     (case hm_target m of
        None \<Rightarrow> hm_angle m
      | Some t \<Rightarrow>
          if ref_active objs t \<and> dist_to objs (hm_position m) t > 0 then
            (let target_angle =
                   degrees (atan2 (- snd (vsub (ref_position objs t) (hm_position m)))
                                  (fst (vsub (ref_position objs t) (hm_position m))));
                 angle_diff = norm_up (norm_down (target_angle - hm_angle m))
             in if \<bar>angle_diff\<bar> < hm_turn_rate m then target_angle
                else hm_angle m + (if angle_diff > 0 then hm_turn_rate m else - hm_turn_rate m))
          else hm_angle m)"
  by (simp add: steer_def dist_to_def Let_def split: option.splits)

lemma steer_turn_bound:
  assumes "0 \<le> hm_turn_rate m"
  shows "\<exists>k::int. \<bar>hm_angle (steer objs m) - hm_angle m - 360 * of_int k\<bar> \<le> hm_turn_rate m"
proof (cases "hm_target m")
  case None
  then have "\<bar>hm_angle (steer objs m) - hm_angle m - 360 * of_int (0::int)\<bar> \<le> hm_turn_rate m"
    using assms by (simp add: steer_angle)
  then show ?thesis by blast
next
  case (Some t)
  show ?thesis
  proof (cases "ref_active objs t \<and> dist_to objs (hm_position m) t > 0")
    case False
    then have "\<bar>hm_angle (steer objs m) - hm_angle m - 360 * of_int (0::int)\<bar> \<le> hm_turn_rate m"
      using assms Some by (auto simp: steer_angle)
    then show ?thesis by blast
  next
    case True
    define ta where "ta = degrees (atan2 (- snd (vsub (ref_position objs t) (hm_position m)))
                                  (fst (vsub (ref_position objs t) (hm_position m))))"
    define diff where "diff = norm_up (norm_down (ta - hm_angle m))"
    have a: "hm_angle (steer objs m) =
        (if \<bar>diff\<bar> < hm_turn_rate m then ta
         else hm_angle m + (if diff > 0 then hm_turn_rate m else - hm_turn_rate m))"
      using Some True by (simp add: steer_angle Let_def ta_def diff_def)
    show ?thesis
    proof (cases "\<bar>diff\<bar> < hm_turn_rate m")
      case True
      obtain k :: int where k: "diff = ta - hm_angle m - 360 * of_int k"
        unfolding diff_def using norm_shift by blast
      have "\<bar>hm_angle (steer objs m) - hm_angle m - 360 * of_int k\<bar> \<le> hm_turn_rate m"
        using True a k by simp
      then show ?thesis by blast
    next
      case False
      then have "\<bar>hm_angle (steer objs m) - hm_angle m - 360 * of_int (0::int)\<bar> \<le> hm_turn_rate m"
        using a assms by simp
      then show ?thesis by blast
    qed
  qed
qed

lemma HomingMissile_update_alive:
  assumes "0 < hm_lifetime m - dt"
  shows "hm_target (HomingMissile_update dt objs enemies m)
           = hm_target (acquire objs enemies (m\<lparr>hm_lifetime := hm_lifetime m - dt\<rparr>))"
    and "hm_angle (HomingMissile_update dt objs enemies m)
           = hm_angle (steer objs (acquire objs enemies (m\<lparr>hm_lifetime := hm_lifetime m - dt\<rparr>)))"
    and "hm_velocity (HomingMissile_update dt objs enemies m)
           = (cos (radians (hm_angle (HomingMissile_update dt objs enemies m))) * 12,
              - sin (radians (hm_angle (HomingMissile_update dt objs enemies m))) * 12)"
    and "hm_position (HomingMissile_update dt objs enemies m)
           = vadd (hm_position m)
                  (vscale (vscale (hm_velocity (HomingMissile_update dt objs enemies m)) dt) 60)"
  using assms by (simp_all add: HomingMissile_update_def Let_def)

lemma missile_targets_has_boss:
  "set (map EnemyRef (em_enemies em)) \<subseteq> set (missile_targets em)
   \<and> (\<forall>i. em_boss em = Some i \<longrightarrow> BossRef i \<in> set (missile_targets em))"
  by (auto simp: missile_targets_def)


lemma speed_twelve: "vlength (cos r * 12, - sin r * 12) = 12"
proof -
  have "cos r * 12 * (cos r * 12) + - sin r * 12 * (- sin r * 12)
          = 144 * ((sin r)\<^sup>2 + (cos r)\<^sup>2)"
    unfolding power2_eq_square by (simp only: algebra_simps)
  also have "\<dots> = 144" by simp
  finally have "cos r * 12 * (cos r * 12) + - sin r * 12 * (- sin r * 12) = 12\<^sup>2"
    by simp
  then have "sqrt (cos r * 12 * (cos r * 12) + - sin r * 12 * (- sin r * 12)) = 12"
    by (simp only: real_sqrt_abs)
  then show ?thesis by (simp only: vlength_def fst_conv snd_conv)
qed

text \<open>
  Claim C8, as amended. On an update that does not end its lifetime, a homing missile
  keeps its target as long as that target is active. Only a missile without a target, or
  with an inactive one, takes a new target: the nearest active object of the list it is
  given, or none when the list has no active object. It then turns toward its target:
  the difference between the bearing of the target and its heading, brought into
  \<open>[-180, 180]\<close> by full turns, is closed when it is below the turn rate, and otherwise
  the heading moves by the turn rate in the direction of the difference; so the heading
  changes by at most the turn rate, up to full turns. The velocity has length 12 along
  the new heading and the position advances by \<open>velocity * dt * 60\<close>. The list that
  \<^verbatim>\<open>EnemyManager.update\<close> hands to the missiles holds the manager's enemies and its
  boss.
\<close>

theorem homing_missile_update:
  assumes "0 < hm_lifetime m - dt" and "0 \<le> hm_turn_rate m"
  shows
    "(\<forall>t. hm_target m = Some t \<and> ref_active objs t \<longrightarrow>
         hm_target (HomingMissile_update dt objs enemies m) = Some t)
     \<and> (hm_target m = None \<or> (\<exists>t. hm_target m = Some t \<and> \<not> ref_active objs t) \<longrightarrow>
          hm_target (HomingMissile_update dt objs enemies m) = find_nearest_enemy objs enemies m
          \<and> (hm_target (HomingMissile_update dt objs enemies m) = None
                \<longleftrightarrow> (\<forall>e\<in>set enemies. \<not> ref_active objs e))
          \<and> (\<forall>r. hm_target (HomingMissile_update dt objs enemies m) = Some r \<longrightarrow>
                 r \<in> set enemies \<and> ref_active objs r
                 \<and> (\<forall>e\<in>set enemies. ref_active objs e \<longrightarrow>
                        dist_to objs (hm_position m) r \<le> dist_to objs (hm_position m) e)))
     \<and> (\<exists>k::int. \<bar>hm_angle (HomingMissile_update dt objs enemies m) - hm_angle m
                     - 360 * of_int k\<bar> \<le> hm_turn_rate m)
     \<and> (\<forall>t. hm_target (HomingMissile_update dt objs enemies m) = Some t
              \<and> ref_active objs t \<and> dist_to objs (hm_position m) t > 0 \<longrightarrow>
           (let target_angle =
                  degrees (atan2 (- snd (vsub (ref_position objs t) (hm_position m)))
                                 (fst (vsub (ref_position objs t) (hm_position m))));
                angle_diff = norm_up (norm_down (target_angle - hm_angle m))
            in - 180 \<le> angle_diff \<and> angle_diff \<le> 180
               \<and> (\<exists>k::int. angle_diff = target_angle - hm_angle m - 360 * of_int k)
               \<and> hm_angle (HomingMissile_update dt objs enemies m) =
                    (if \<bar>angle_diff\<bar> < hm_turn_rate m then target_angle
                     else hm_angle m
                            + (if angle_diff > 0 then hm_turn_rate m else - hm_turn_rate m))))
     \<and> hm_velocity (HomingMissile_update dt objs enemies m)
          = (cos (radians (hm_angle (HomingMissile_update dt objs enemies m))) * 12,
             - sin (radians (hm_angle (HomingMissile_update dt objs enemies m))) * 12)
     \<and> vlength (hm_velocity (HomingMissile_update dt objs enemies m)) = 12
     \<and> hm_position (HomingMissile_update dt objs enemies m)
          = vadd (hm_position m)
                 (vscale (vscale (hm_velocity (HomingMissile_update dt objs enemies m)) dt) 60)
     \<and> set (map EnemyRef (em_enemies em)) \<subseteq> set (missile_targets em)
     \<and> (\<forall>i. em_boss em = Some i \<longrightarrow> BossRef i \<in> set (missile_targets em))"
proof -
  define m1 where "m1 = m\<lparr>hm_lifetime := hm_lifetime m - dt\<rparr>"
  define m2 where "m2 = acquire objs enemies m1"
  note u = HomingMissile_update_alive [OF assms(1), of objs enemies, folded m1_def m2_def]
  have m1: "hm_target m1 = hm_target m" "hm_position m1 = hm_position m"
    "hm_angle m1 = hm_angle m" "hm_turn_rate m1 = hm_turn_rate m"
    by (simp_all add: m1_def)
  have fn: "find_nearest_enemy objs enemies m1 = find_nearest_enemy objs enemies m"
    by (simp add: find_nearest_enemy_def m1)
  have t2: "hm_target m2 =
     (case hm_target m of
        None \<Rightarrow> find_nearest_enemy objs enemies m
      | Some t \<Rightarrow> if ref_active objs t then Some t else find_nearest_enemy objs enemies m)"
    unfolding m2_def acquire_target m1 fn ..
  have m2: "hm_position m2 = hm_position m" "hm_angle m2 = hm_angle m"
    "hm_turn_rate m2 = hm_turn_rate m"
    by (simp_all add: m2_def m1)
  have keep: "\<forall>t. hm_target m = Some t \<and> ref_active objs t \<longrightarrow>
         hm_target (HomingMissile_update dt objs enemies m) = Some t"
    unfolding u(1) t2 by simp
  have acq: "hm_target m = None \<or> (\<exists>t. hm_target m = Some t \<and> \<not> ref_active objs t) \<longrightarrow>
          hm_target (HomingMissile_update dt objs enemies m) = find_nearest_enemy objs enemies m"
    unfolding u(1) t2 by auto
  note spec = find_nearest_enemy_spec [of objs enemies m]
  have turn: "\<exists>k::int. \<bar>hm_angle (HomingMissile_update dt objs enemies m) - hm_angle m
                     - 360 * of_int k\<bar> \<le> hm_turn_rate m"
    unfolding u(2) using steer_turn_bound [of m2 objs] assms(2) by (simp add: m2)
  have toward: "\<forall>t. hm_target (HomingMissile_update dt objs enemies m) = Some t
              \<and> ref_active objs t \<and> dist_to objs (hm_position m) t > 0 \<longrightarrow>
           (let target_angle =
                  degrees (atan2 (- snd (vsub (ref_position objs t) (hm_position m)))
                                 (fst (vsub (ref_position objs t) (hm_position m))));
                angle_diff = norm_up (norm_down (target_angle - hm_angle m))
            in - 180 \<le> angle_diff \<and> angle_diff \<le> 180
               \<and> (\<exists>k::int. angle_diff = target_angle - hm_angle m - 360 * of_int k)
               \<and> hm_angle (HomingMissile_update dt objs enemies m) =
                    (if \<bar>angle_diff\<bar> < hm_turn_rate m then target_angle
                     else hm_angle m
                            + (if angle_diff > 0 then hm_turn_rate m else - hm_turn_rate m)))"
    unfolding u(1) u(2) Let_def
    using norm_range norm_shift by (simp add: steer_angle m2 Let_def)
  have v: "vlength (hm_velocity (HomingMissile_update dt objs enemies m)) = 12"
    by (subst u(3)) (rule speed_twelve)
  have acq_spec: "hm_target m = None \<or> (\<exists>t. hm_target m = Some t \<and> \<not> ref_active objs t) \<longrightarrow>
          hm_target (HomingMissile_update dt objs enemies m) = find_nearest_enemy objs enemies m
          \<and> (hm_target (HomingMissile_update dt objs enemies m) = None
                \<longleftrightarrow> (\<forall>e\<in>set enemies. \<not> ref_active objs e))
          \<and> (\<forall>r. hm_target (HomingMissile_update dt objs enemies m) = Some r \<longrightarrow>
                 r \<in> set enemies \<and> ref_active objs r
                 \<and> (\<forall>e\<in>set enemies. ref_active objs e \<longrightarrow>
                        dist_to objs (hm_position m) r \<le> dist_to objs (hm_position m) e))"
  proof
    assume "hm_target m = None \<or> (\<exists>t. hm_target m = Some t \<and> \<not> ref_active objs t)"
    with acq have e: "hm_target (HomingMissile_update dt objs enemies m)
                       = find_nearest_enemy objs enemies m" by (rule mp)
    show "hm_target (HomingMissile_update dt objs enemies m) = find_nearest_enemy objs enemies m
          \<and> (hm_target (HomingMissile_update dt objs enemies m) = None
                \<longleftrightarrow> (\<forall>e\<in>set enemies. \<not> ref_active objs e))
          \<and> (\<forall>r. hm_target (HomingMissile_update dt objs enemies m) = Some r \<longrightarrow>
                 r \<in> set enemies \<and> ref_active objs r
                 \<and> (\<forall>e\<in>set enemies. ref_active objs e \<longrightarrow>
                        dist_to objs (hm_position m) r \<le> dist_to objs (hm_position m) e))"
      unfolding e using spec by (intro conjI) (rule refl, erule conjunct1, erule conjunct2)
  qed
  show ?thesis
    apply (intro conjI)
            apply (rule keep)
           apply (rule acq_spec)
          apply (rule turn)
         apply (rule toward)
        apply (rule u(3))
       apply (rule v)
      apply (rule u(4))
     apply (rule missile_targets_has_boss [THEN conjunct1])
    apply (rule missile_targets_has_boss [THEN conjunct2])
    done
qed


lemma two_drones_active:
  "ref_active two_drones (EnemyRef 0)" "ref_active two_drones (EnemyRef 1)"
  by (simp_all add: two_drones_def Enemy_init_def get_stats_def)

lemma two_drones_dist:
  "dist_to two_drones (100, 300) (EnemyRef 0) = 100"
  "dist_to two_drones (100, 300) (EnemyRef 1) = 700"
proof -
  have "dist_to two_drones (100, 300) (EnemyRef 0) = sqrt (100\<^sup>2)"
    by (simp add: dist_to_def two_drones_def Enemy_init_def get_stats_def vlength_def vsub_def)
  then show "dist_to two_drones (100, 300) (EnemyRef 0) = 100"
    by (simp only: real_sqrt_abs)
  have "dist_to two_drones (100, 300) (EnemyRef 1) = sqrt (700\<^sup>2)"
    by (simp add: dist_to_def two_drones_def Enemy_init_def get_stats_def vlength_def vsub_def)
  then show "dist_to two_drones (100, 300) (EnemyRef 1) = 700"
    by (simp only: real_sqrt_abs)
qed

lemma two_drones_nearest:
  assumes "hm_position m = (100, 300)"
  shows "find_nearest_enemy two_drones [EnemyRef 0, EnemyRef 1] m = Some (EnemyRef 0)"
  unfolding find_nearest_enemy_def assms
  by (simp only: find_nearest_loop_Cons find_nearest_loop.simps(1) two_drones_active
        two_drones_dist if_True option.case fst_conv) simp

theorem homing_missile_update_witness:
  "0 < hm_lifetime locked_missile - 1 / 60
   \<and> 0 \<le> hm_turn_rate locked_missile
   \<and> hm_target locked_missile = Some (EnemyRef 1)
   \<and> ref_active two_drones (EnemyRef 1)
   \<and> hm_target (HomingMissile_update (1 / 60) two_drones [EnemyRef 0, EnemyRef 1] locked_missile)
       = Some (EnemyRef 1)
   \<and> vlength (hm_velocity
         (HomingMissile_update (1 / 60) two_drones [EnemyRef 0, EnemyRef 1] locked_missile)) = 12
   \<and> hm_target (HomingMissile_init (100, 300)) = None
   \<and> hm_target (HomingMissile_update (1 / 60) two_drones [EnemyRef 0, EnemyRef 1]
                  (HomingMissile_init (100, 300)))
       = Some (EnemyRef 0)"
proof -
  have l: "0 < hm_lifetime locked_missile - 1 / 60" "0 \<le> hm_turn_rate locked_missile"
    "hm_target locked_missile = Some (EnemyRef 1)"
    by (simp_all add: locked_missile_def HomingMissile_init_def)
  have i: "0 < hm_lifetime (HomingMissile_init (100, 300)) - 1 / 60"
    "0 \<le> hm_turn_rate (HomingMissile_init (100, 300))"
    "hm_target (HomingMissile_init (100, 300)) = None"
    "hm_position (HomingMissile_init (100, 300)) = (100, 300)"
    by (simp_all add: HomingMissile_init_def)
  note a = homing_missile_update
             [OF l(1) l(2), of two_drones "[EnemyRef 0, EnemyRef 1]" EnemyManager_init]
  note b = homing_missile_update
             [OF i(1) i(2), of two_drones "[EnemyRef 0, EnemyRef 1]" EnemyManager_init]
  have 1: "hm_target (HomingMissile_update (1 / 60) two_drones [EnemyRef 0, EnemyRef 1]
                        locked_missile) = Some (EnemyRef 1)"
    using a [THEN conjunct1] l(3) two_drones_active(2) by blast
  have 2: "vlength (hm_velocity
         (HomingMissile_update (1 / 60) two_drones [EnemyRef 0, EnemyRef 1] locked_missile)) = 12"
    using a by blast
  have 3: "hm_target (HomingMissile_update (1 / 60) two_drones [EnemyRef 0, EnemyRef 1]
                  (HomingMissile_init (100, 300)))
       = find_nearest_enemy two_drones [EnemyRef 0, EnemyRef 1] (HomingMissile_init (100, 300))"
    using b [THEN conjunct2, THEN conjunct1] i(3) by blast
  show ?thesis
    using l i(3) two_drones_active(2) 1 2 3 two_drones_nearest [OF i(4)] by simp
qed

text \<open>
  A missile does not re-target the nearest active enemy on every update: locked on the
  active drone 700 away, it keeps that target although the other active drone is 100
  away and is what \<^verbatim>\<open>_find_nearest_enemy\<close> would return.
\<close>

theorem missile_keeps_locked_target_counterexample:
  "ref_active two_drones (EnemyRef 0)
   \<and> ref_active two_drones (EnemyRef 1)
   \<and> dist_to two_drones (hm_position locked_missile) (EnemyRef 0)
       < dist_to two_drones (hm_position locked_missile) (EnemyRef 1)
   \<and> find_nearest_enemy two_drones [EnemyRef 0, EnemyRef 1] locked_missile = Some (EnemyRef 0)
   \<and> hm_target (HomingMissile_update (1 / 60) two_drones [EnemyRef 0, EnemyRef 1] locked_missile)
       = Some (EnemyRef 1)"
proof -
  have p: "hm_position locked_missile = (100, 300)"
    and l: "0 < hm_lifetime locked_missile - 1 / 60"
    and t: "hm_target (locked_missile\<lparr>hm_lifetime := hm_lifetime locked_missile - 1 / 60\<rparr>)
              = Some (EnemyRef 1)"
    by (simp_all add: locked_missile_def HomingMissile_init_def)
  have "hm_target (HomingMissile_update (1 / 60) two_drones [EnemyRef 0, EnemyRef 1] locked_missile)
          = Some (EnemyRef 1)"
    unfolding HomingMissile_update_alive(1) [OF l] acquire_target t
    using two_drones_active(2) by simp
  moreover have "dist_to two_drones (hm_position locked_missile) (EnemyRef 0)
       < dist_to two_drones (hm_position locked_missile) (EnemyRef 1)"
    unfolding p two_drones_dist by simp
  ultimately show ?thesis
    using two_drones_active two_drones_nearest [OF p] by (intro conjI)
qed

end
